theory Spec2Isabelle
  imports Main "HOL-Library.Word"
begin

section \<open>Python values\<close>

text \<open>
  A Python \<open>str\<close> is a sequence of Unicode code points, and \<open>len\<close> and slicing count
  code points; a \<open>bytes\<close> object is a sequence of octets. String literals of the source
  are embedded with \<open>str\<close>.
\<close>

type_synonym pystr = "nat list"

type_synonym byte = "8 word"

definition str :: "string \<Rightarrow> pystr" where
  "str s = map of_char s"

text \<open>\<open>str(n)\<close> for a non-negative integer: its decimal digits.\<close>

function str_of_nat :: "nat \<Rightarrow> pystr" where
  "str_of_nat n = (if n < 10 then [48 + n] else str_of_nat (n div 10) @ [48 + n mod 10])"
  by pat_completeness auto
termination
  by (relation "measure (\<lambda>n. n)") auto

text \<open>\<open>s.startswith(p)\<close>.\<close>

definition startswith :: "pystr \<Rightarrow> pystr \<Rightarrow> bool" where
  "startswith s p = (take (length p) s = p)"

text \<open>\<open>s.split("/")[-1]\<close>: the part of \<open>s\<close> after its last slash (all of \<open>s\<close> when it has none).\<close>

definition split_last :: "pystr \<Rightarrow> pystr" where
  "split_last s = rev (takeWhile (\<lambda>c. c \<noteq> 47) (rev s))"

text \<open>
  The values that occur in the dictionaries of \<open>ingest_file\<close>: strings, integers, booleans
  and the \<open>Image(data=..., format=...)\<close> object of the image branch. A dictionary is an
  association list in insertion order.
\<close>

datatype pyval = PyStr pystr | PyInt int | PyBool bool | PyImage "byte list" pystr

type_synonym dict = "(string \<times> pyval) list"

section \<open>Exceptions\<close>

text \<open>
  An exception is its class and its message \<open>str(e)\<close>. The classes are the ones the
  \<open>except\<close> clauses of \<open>ingest_file\<close> tell apart: \<open>UnicodeDecodeError\<close> is a subclass of
  \<open>ValueError\<close>, every class but \<open>BaseExceptionOnly\<close> (\<open>KeyboardInterrupt\<close>,
  \<open>SystemExit\<close>) is a subclass of \<open>Exception\<close>.
\<close>

datatype exn_class = ValueError | UnicodeDecodeError | OSError | OtherException | BaseExceptionOnly

datatype exn = Exn exn_class pystr

fun exn_str :: "exn \<Rightarrow> pystr" where
  "exn_str (Exn c m) = m"

fun is_ValueError :: "exn \<Rightarrow> bool" where
  "is_ValueError (Exn c m) = (c = ValueError \<or> c = UnicodeDecodeError)"

fun is_UnicodeDecodeError :: "exn \<Rightarrow> bool" where
  "is_UnicodeDecodeError (Exn c m) = (c = UnicodeDecodeError)"

fun is_Exception :: "exn \<Rightarrow> bool" where
  "is_Exception (Exn c m) = (c \<noteq> BaseExceptionOnly)"

section \<open>The collaborators of the pipeline\<close>

text \<open>
  One call \<open>collection.add(documents=..., metadatas=..., ids=...)\<close> on the collection
  obtained by \<open>get_collection(name)\<close>.
\<close>

record add_call =
  collection :: pystr
  documents :: "pystr list"
  metadatas :: "dict list"
  ids :: "pystr list"

text \<open>
  The Chroma client: \<open>get_collection\<close> returns the collection or raises,
  \<open>collection.add\<close> returns or raises. Both are external; every behaviour is allowed.
\<close>

record chroma =
  get_collection :: "pystr \<Rightarrow> exn + unit"
  collection_add :: "add_call \<Rightarrow> exn + unit"

text \<open>A chunk of the chunker; the pipeline reads its \<open>text\<close> only.\<close>

datatype chunk = Chunk (chunk_text: pystr)

text \<open>
  The world one call of \<open>ingest_file\<close> runs in: the global \<open>chroma_client\<close>, the file
  system (\<open>Path(file_path).expanduser().resolve()\<close>, \<open>path.exists()\<close>, reading the file
  in binary mode and in UTF-8 text mode), \<open>mimetypes.guess_type\<close>, the constructor of the
  chunker with its \<open>chunk\<close> method, and the identifiers \<open>uuid.uuid4()\<close> returns, by the
  number of the draw within the call.
\<close>

record env =
  chroma_client :: "chroma option"
  resolve_path :: "pystr \<Rightarrow> exn + pystr"
  path_exists :: "pystr \<Rightarrow> exn + bool"
  guess_type :: "pystr \<Rightarrow> pystr option"
  read_bytes :: "pystr \<Rightarrow> exn + byte list"
  read_text :: "pystr \<Rightarrow> exn + pystr"
  RecursiveChunker :: "nat \<Rightarrow> exn + (pystr \<Rightarrow> exn + chunk list)"
  uuid4 :: "nat \<Rightarrow> pystr"

section \<open>ingest_file\<close>

text \<open>
  Lines 55-57: the override when it is given and non-empty, else the guessed type, else
  \<open>application/octet-stream\<close>.
\<close>

definition resolve_content_type :: "env \<Rightarrow> pystr \<Rightarrow> pystr option \<Rightarrow> pystr" where
  "resolve_content_type e path content_type =
     (if content_type = None \<or> content_type = Some []
      then (case guess_type e path of
              None \<Rightarrow> str ''application/octet-stream''
            | Some g \<Rightarrow> if g = [] then str ''application/octet-stream'' else g)
      else the content_type)"

text \<open>
  Lines 82-98, the loop over \<open>enumerate(chunks)\<close>: iteration \<open>i\<close> draws the \<open>i\<close>-th
  identifier, appends the text of the chunk to \<open>documents\<close>, its metadata to \<open>metadatas\<close>
  and the identifier to \<open>ids\<close>. \<open>n\<close> is \<open>len(chunks)\<close>.
\<close>

fun process_chunks ::
  "env \<Rightarrow> pystr \<Rightarrow> pystr \<Rightarrow> nat \<Rightarrow> nat \<Rightarrow> chunk list \<Rightarrow> pystr list \<times> dict list \<times> pystr list" where
  "process_chunks e path content_type n i [] = ([], [], [])"
| "process_chunks e path content_type n i (c # rest) =
     (case process_chunks e path content_type n (Suc i) rest of
        (ds, ms, us) \<Rightarrow>
          (chunk_text c # ds,
           [(''source_file'', PyStr path), (''content_type'', PyStr content_type),
            (''chunk_index'', PyInt (int i)), (''total_chunks'', PyInt (int n))] # ms,
           uuid4 e i # us))"

text \<open>
  Lines 74-102, the body of the inner \<open>try\<close>. It either completes, with \<open>content\<close>, \<open>size\<close>
  and \<open>chunks\<close>, or raises; the local \<open>chunks\<close> is bound from line 79 on, which line 131
  asks for. The second component is the list of \<open>collection.add\<close> calls made.
\<close>

datatype text_outcome =
    TextDone pystr nat "chunk list"
  | TextRaised exn "chunk list option"

definition text_block ::
  "env \<Rightarrow> chroma \<Rightarrow> (pystr \<Rightarrow> exn + chunk list) \<Rightarrow> pystr \<Rightarrow> pystr \<Rightarrow> pystr
     \<Rightarrow> text_outcome \<times> add_call list" where
  "text_block e client chunker path collection_name content_type =
     (case read_text e path of
        Inl x \<Rightarrow> (TextRaised x None, [])
      | Inr content \<Rightarrow>
          (case chunker content of
             Inl x \<Rightarrow> (TextRaised x None, [])
           | Inr chunks \<Rightarrow>
               (case process_chunks e path content_type (length chunks) 0 chunks of
                  (ds, ms, us) \<Rightarrow>
                    (case get_collection client collection_name of
                       Inl x \<Rightarrow> (TextRaised x (Some chunks), [])
                     | Inr u \<Rightarrow>
                         (let call = \<lparr>collection = collection_name, documents = ds,
                                      metadatas = ms, ids = us\<rparr>
                          in case collection_add client call of
                               Inl x \<Rightarrow> (TextRaised x (Some chunks), [call])
                             | Inr v \<Rightarrow> (TextDone content (length content) chunks, [call]))))))"

text \<open>Line 108, the placeholder of a binary file.\<close>

definition binary_placeholder :: "pystr \<Rightarrow> nat \<Rightarrow> pystr" where
  "binary_placeholder content_type n =
     str ''<Binary data of type '' @ content_type @ str '', size '' @ str_of_nat n
       @ str '' bytes>''"

text \<open>
  Lines 106-123, the handler of \<open>UnicodeDecodeError\<close>; \<open>k\<close> is the number of identifiers
  drawn before. It completes with \<open>content\<close> and \<open>size\<close>, or raises.
\<close>

definition binary_block ::
  "env \<Rightarrow> chroma \<Rightarrow> pystr \<Rightarrow> pystr \<Rightarrow> pystr \<Rightarrow> nat \<Rightarrow> (exn + pystr \<times> nat) \<times> add_call list" where
  "binary_block e client path collection_name content_type k =
     (case read_bytes e path of
        Inl x \<Rightarrow> (Inl x, [])
      | Inr binary_data \<Rightarrow>
          (case get_collection client collection_name of
             Inl x \<Rightarrow> (Inl x, [])
           | Inr u \<Rightarrow>
               (let content = binary_placeholder content_type (length binary_data);
                    call = \<lparr>collection = collection_name, documents = [content],
                            metadatas = [[(''source_file'', PyStr path),
                                          (''content_type'', PyStr content_type),
                                          (''is_binary'', PyBool True)]],
                            ids = [uuid4 e k]\<rparr>
                in case collection_add client call of
                     Inl x \<Rightarrow> (Inl x, [call])
                   | Inr v \<Rightarrow> (Inr (content, length binary_data), [call]))))"

text \<open>Line 126: \<open>content[:100] + "..." if len(content) > 100 else content\<close>.\<close>

definition truncated_content :: "pystr \<Rightarrow> pystr" where
  "truncated_content content =
     (if length content > 100 then take 100 content @ str ''...'' else content)"

text \<open>Lines 127-132, the dictionary of a text or binary ingest.\<close>

definition summary :: "pystr \<Rightarrow> pystr \<Rightarrow> nat \<Rightarrow> nat \<Rightarrow> dict" where
  "summary content content_type sz chunks_created =
     [(''content'', PyStr (truncated_content content)), (''content_type'', PyStr content_type),
      (''size'', PyInt (int sz)), (''chunks_created'', PyInt (int chunks_created))]"

text \<open>
  Lines 47-132, the body of the outer \<open>try\<close>: the dictionary it returns or the exception
  it raises, and the \<open>collection.add\<close> calls made.
\<close>

definition ingest_body ::
  "env \<Rightarrow> chroma \<Rightarrow> pystr \<Rightarrow> pystr \<Rightarrow> pystr option \<Rightarrow> (exn + dict) \<times> add_call list" where
  "ingest_body e client file_path collection_name content_type =
     (case resolve_path e file_path of
        Inl x \<Rightarrow> (Inl x, [])
      | Inr path \<Rightarrow>
          (case path_exists e path of
             Inl x \<Rightarrow> (Inl x, [])
           | Inr ex \<Rightarrow>
               if \<not> ex then (Inr [(''error'', PyStr (str ''File not found: '' @ file_path))], [])
               else
                 (let ct = resolve_content_type e path content_type in
                  if ct \<noteq> [] \<and> startswith ct (str ''image/'') then
                    (case read_bytes e path of
                       Inl x \<Rightarrow> (Inl x, [])
                     | Inr binary_data \<Rightarrow>
                         (Inr [(''content'', PyImage binary_data (split_last ct)),
                               (''content_type'', PyStr ct),
                               (''size'', PyInt (int (length binary_data)))], []))
                  else
                    (case RecursiveChunker e 1024 of
                       Inl x \<Rightarrow> (Inl x, [])
                     | Inr chunker \<Rightarrow>
                         (case text_block e client chunker path collection_name ct of
                            (TextDone content sz chunks, w) \<Rightarrow>
                              (Inr (summary content ct sz (length chunks)), w)
                          | (TextRaised x bound, w) \<Rightarrow>
                              if is_UnicodeDecodeError x then
                                (case binary_block e client path collection_name ct
                                        (case bound of None \<Rightarrow> 0 | Some cs \<Rightarrow> length cs) of
                                   (Inl y, w') \<Rightarrow> (Inl y, w @ w')
                                 | (Inr (content, sz), w') \<Rightarrow>
                                     (Inr (summary content ct sz
                                             (case bound of None \<Rightarrow> 1 | Some cs \<Rightarrow> length cs)),
                                      w @ w'))
                              else (Inl x, w))))))"

text \<open>What a call does: it returns a dictionary, or an exception leaves it.\<close>

datatype outcome = Returns dict | Raises exn

text \<open>
  \<open>ingest_file\<close>, lines 19-135: the outcome of the call and the \<open>collection.add\<close> calls it
  made, in order.
\<close>

definition ingest_file ::
  "env \<Rightarrow> pystr \<Rightarrow> pystr \<Rightarrow> pystr option \<Rightarrow> outcome \<times> add_call list" where
  "ingest_file e file_path collection_name content_type =
     (case chroma_client e of
        None \<Rightarrow> (Returns [(''error'', PyStr (str ''Chroma client not initialized''))], [])
      | Some client \<Rightarrow>
          (case get_collection client collection_name of
             Inl x \<Rightarrow>
               if is_ValueError x then
                 (Returns [(''error'', PyStr (str ''Collection '' @ [39] @ collection_name @ [39]
                              @ str '' does not exist. Please create it first.''))], [])
               else (Raises x, [])
           | Inr u \<Rightarrow>
               (case ingest_body e client file_path collection_name content_type of
                  (Inl x, w) \<Rightarrow>
                    if is_Exception x then
                      (Returns [(''error'', PyStr (str ''Error reading file: '' @ exn_str x))], w)
                    else (Raises x, w)
                | (Inr d, w) \<Rightarrow> (Returns d, w))))"

section \<open>The chunker of the specification\<close>

text \<open>
  Modelled from the spec: the last resort of \<open>RecursiveChunker\<close>, which is not part of
  the source (section 4.2, "raw character offset"). Splitting at raw character offsets:
  pieces of \<open>m\<close> characters, the last one shorter.
\<close>

function raw_split :: "nat \<Rightarrow> pystr \<Rightarrow> pystr list" where
  "raw_split m t = (if m = 0 \<or> length t \<le> m then [t] else take m t # raw_split m (drop m t))"
  by pat_completeness auto
termination
  by (relation "measure (\<lambda>(m, t). length t)") auto

text \<open>
  Modelled from the spec: the recursion of \<open>RecursiveChunker\<close>, which is not part of the
  source (section 4.2). Splitting at the coarsest boundary type into candidate pieces; a
  piece that still exceeds \<open>m\<close> is split again at the next finer boundary type, and at raw
  character offsets when no boundary type is left.
\<close>

fun resplit :: "nat \<Rightarrow> (pystr \<Rightarrow> pystr list) list \<Rightarrow> pystr \<Rightarrow> pystr list" where
  "resplit m [] t = raw_split m t"
| "resplit m (boundary # finer) t =
     concat (map (\<lambda>piece. if length piece > m then resplit m finer piece else [piece])
       (boundary t))"

text \<open>
  Modelled from the spec: \<open>RecursiveChunker\<close>, which the source imports from the package
  \<open>chonkie\<close> and which is not part of the source. Section 4.2 of the specification:
  \<open>chunk(text, max_size)\<close> fails if \<open>max_size <= 0\<close> (\<open>None\<close> here), gives no fragment for
  the empty text, and else splits at paragraph, sentence and word boundaries and at raw
  character offsets, in that order. The specification does not say which characters make
  a boundary: \<open>boundaries\<close> is the list of the splitting functions, coarsest first, and
  sizes are counted in characters.
\<close>

definition chunk_spec :: "(pystr \<Rightarrow> pystr list) list \<Rightarrow> pystr \<Rightarrow> nat \<Rightarrow> pystr list option" where
  "chunk_spec boundaries t max_size =
     (if max_size = 0 then None
      else if t = [] then Some []
      else Some (resplit max_size boundaries t))"

section \<open>A sample world\<close>

text \<open>
  Splitting at one separator character, which is dropped: the boundary functions of the
  sample chunker split at line feeds, at full stops and at spaces.
\<close>

fun split_at :: "nat \<Rightarrow> pystr \<Rightarrow> pystr list" where
  "split_at sep [] = [[]]"
| "split_at sep (c # cs) =
     (if c = sep then [] # split_at sep cs
      else (case split_at sep cs of [] \<Rightarrow> [[c]] | p # ps \<Rightarrow> (c # p) # ps))"

definition sample_boundaries :: "(pystr \<Rightarrow> pystr list) list" where
  "sample_boundaries = [split_at 10, split_at 46, split_at 32]"

text \<open>
  A store with the one collection \<open>docs\<close>, which refuses a batch without identifiers, and
  a store that cannot be reached.
\<close>

definition sample_client :: chroma where
  "sample_client =
     \<lparr>get_collection = (\<lambda>name. if name = str ''docs'' then Inr ()
                          else Inl (Exn ValueError (str ''Collection does not exist''))),
      collection_add = (\<lambda>call. if ids call = []
                          then Inl (Exn ValueError (str ''Expected IDs to be a non-empty list''))
                          else Inr ())\<rparr>"

definition unreachable_client :: chroma where
  "unreachable_client =
     \<lparr>get_collection = (\<lambda>name. Inl (Exn OtherException (str ''Could not connect''))),
      collection_add = (\<lambda>call. Inl (Exn OtherException (str ''Could not connect'')))\<rparr>"

text \<open>
  Five files under \<open>/d/\<close>: \<open>t.txt\<close> holds \<open>Hi. Yo\<close>, \<open>l.txt\<close> holds the three lines \<open>a\<close>,
  \<open>b\<close> and \<open>c\<close>, \<open>e.txt\<close> is empty, \<open>b.bin\<close> holds the two bytes \<open>FF FE\<close>, which are not
  UTF-8, and \<open>i.png\<close> holds four bytes, the first of which is not UTF-8 either. Reading as
  text decodes the ASCII files and fails on the other two.
\<close>

definition sample_files :: "(pystr \<times> byte list) list" where
  "sample_files =
     [(str ''/d/t.txt'', [72, 105, 46, 32, 89, 111]),
      (str ''/d/e.txt'', []),
      (str ''/d/b.bin'', [255, 254]),
      (str ''/d/i.png'', [137, 80, 78, 71]),
      (str ''/d/l.txt'', [97, 10, 98, 10, 99])]"

definition sample_env :: env where
  "sample_env =
     \<lparr>chroma_client = Some sample_client,
      resolve_path = (\<lambda>f. Inr (str ''/d/'' @ f)),
      path_exists = (\<lambda>p. Inr (map_of sample_files p \<noteq> None)),
      guess_type = (\<lambda>p. if p = str ''/d/i.png'' then Some (str ''image/png'')
                      else if p = str ''/d/b.bin'' then None
                      else Some (str ''text/plain'')),
      read_bytes = (\<lambda>p. case map_of sample_files p of
                      None \<Rightarrow> Inl (Exn OSError (str ''No such file or directory''))
                    | Some bs \<Rightarrow> Inr bs),
      read_text = (\<lambda>p. case map_of sample_files p of
                      None \<Rightarrow> Inl (Exn OSError (str ''No such file or directory''))
                    | Some bs \<Rightarrow>
                        if \<forall>b \<in> set bs. b < 128 then Inr (map unat bs)
                        else Inl (Exn UnicodeDecodeError (str ''invalid start byte''))),
      RecursiveChunker = (\<lambda>m. Inr (\<lambda>t. case chunk_spec sample_boundaries t m of
                      None \<Rightarrow> Inl (Exn ValueError (str ''chunk_size must be positive''))
                    | Some fs \<Rightarrow> Inr (map Chunk fs))),
      uuid4 = (\<lambda>k. str ''id'' @ str_of_nat k)\<rparr>"

text \<open>
  The sample world with a store that accepts every batch, and with the store that cannot
  be reached.
\<close>

definition lenient_client :: chroma where
  "lenient_client =
     \<lparr>get_collection = (\<lambda>name. Inr ()), collection_add = (\<lambda>call. Inr ())\<rparr>"

definition lenient_env :: env where
  "lenient_env = sample_env\<lparr>chroma_client := Some lenient_client\<rparr>"

definition unreachable_env :: env where
  "unreachable_env = sample_env\<lparr>chroma_client := Some unreachable_client\<rparr>"

text \<open>
  The sample world with a store that signals a missing collection by an exception that is
  not a \<open>ValueError\<close>, as the \<open>NotFoundError\<close> of recent Chroma clients.
\<close>

definition notfound_client :: chroma where
  "notfound_client =
     \<lparr>get_collection = (\<lambda>name. if name = str ''docs'' then Inr ()
                          else Inl (Exn OtherException (str ''Collection does not exist''))),
      collection_add = (\<lambda>call. Inr ())\<rparr>"

definition notfound_env :: env where
  "notfound_env = sample_env\<lparr>chroma_client := Some notfound_client\<rparr>"

section \<open>The loop over the chunks\<close>

lemma upt_shift: "[i..<i + Suc k] = i # [Suc i..<Suc i + k]"
  by (subst upt_rec) simp

lemma process_chunks_eq:
  "process_chunks e p ct n i cs =
     (map chunk_text cs,
      map (\<lambda>j. [(''source_file'', PyStr p), (''content_type'', PyStr ct),
                 (''chunk_index'', PyInt (int j)), (''total_chunks'', PyInt (int n))])
        [i..<i + length cs],
      map (uuid4 e) [i..<i + length cs])"
proof (induction cs arbitrary: i)
  case Nil
  show ?case by simp
next
  case (Cons c cs)
  have "[i..<i + length (c # cs)] = i # [Suc i..<Suc i + length cs]"
    using upt_shift [of i "length cs"] by simp
  then show ?case
    by (simp add: Cons [of "Suc i"])
qed

lemma startswith_nonempty: "startswith s (str ''image/'') \<Longrightarrow> s \<noteq> []"
  by (auto simp: startswith_def str_def)

section \<open>The checks before the file is read\<close>

text \<open>
  Claim C5, where the code departs from it. The code takes a collection to be missing
  only when \<open>get_collection\<close> raises a \<open>ValueError\<close> (lines 39-44). When the store signals
  the missing collection by any other exception, \<open>ingest_file\<close> returns no error
  dictionary: the exception leaves the call. No \<open>collection.add\<close> is called.
\<close>

theorem missing_collection_uncaught:
  assumes "chroma_client e = Some client"
    and "get_collection client collection_name = Inl x"
    and "\<not> is_ValueError x"
  shows "ingest_file e file_path collection_name content_type = (Raises x, [])"
  using assms by (simp add: ingest_file_def)

theorem missing_collection_uncaught_witness:
  "chroma_client notfound_env = Some notfound_client
   \<and> get_collection notfound_client (str ''nope'')
        = Inl (Exn OtherException (str ''Collection does not exist''))
   \<and> \<not> is_ValueError (Exn OtherException (str ''Collection does not exist''))
   \<and> ingest_file notfound_env (str ''t.txt'') (str ''nope'') None
        = (Raises (Exn OtherException (str ''Collection does not exist'')), [])"
proof -
  have a: "chroma_client notfound_env = Some notfound_client"
    by (simp add: notfound_env_def)
  have b: "get_collection notfound_client (str ''nope'')
             = Inl (Exn OtherException (str ''Collection does not exist''))"
    by (simp add: notfound_client_def str_def)
  have c: "\<not> is_ValueError (Exn OtherException (str ''Collection does not exist''))"
    by simp
  from missing_collection_uncaught [OF a b c, of "str ''t.txt''" None] a b c show ?thesis
    by (intro conjI)
qed

text \<open>
  Claim C6. For every call on an existing collection whose file path resolves to a path
  that does not exist, \<open>ingest_file\<close> returns the error dictionary \<open>File not found\<close> with
  the path as it was given, and calls \<open>collection.add\<close> not once.
\<close>

theorem ingest_missing_file:
  assumes "chroma_client e = Some client"
    and "get_collection client collection_name = Inr u"
    and "resolve_path e file_path = Inr path"
    and "path_exists e path = Inr False"
  shows "ingest_file e file_path collection_name content_type =
           (Returns [(''error'', PyStr (str ''File not found: '' @ file_path))], [])"
  using assms by (simp add: ingest_file_def ingest_body_def)

theorem ingest_missing_file_witness:
  "chroma_client sample_env = Some sample_client
   \<and> get_collection sample_client (str ''docs'') = Inr ()
   \<and> resolve_path sample_env (str ''x.png'') = Inr (str ''/d/x.png'')
   \<and> path_exists sample_env (str ''/d/x.png'') = Inr False
   \<and> ingest_file sample_env (str ''x.png'') (str ''docs'') None =
           (Returns [(''error'', PyStr (str ''File not found: '' @ str ''x.png''))], [])"
proof -
  have a: "chroma_client sample_env = Some sample_client"
    by (simp add: sample_env_def)
  have b: "get_collection sample_client (str ''docs'') = Inr ()"
    by (simp add: sample_client_def)
  have c: "resolve_path sample_env (str ''x.png'') = Inr (str ''/d/x.png'')"
    by (simp add: sample_env_def str_def)
  have d: "path_exists sample_env (str ''/d/x.png'') = Inr False"
    by (simp add: sample_env_def sample_files_def str_def)
  from ingest_missing_file [OF a b c d, of None] a b c d show ?thesis
    by simp
qed

section \<open>The image branch\<close>

lemma sample_has_client: "chroma_client sample_env = Some sample_client"
  by (simp add: sample_env_def)

lemma sample_has_docs: "get_collection sample_client (str ''docs'') = Inr ()"
  by (simp add: sample_client_def)

lemma sample_resolve: "resolve_path sample_env f = Inr (str ''/d/'' @ f)"
  by (simp add: sample_env_def)

lemma sample_png_exists: "path_exists sample_env (str ''/d/'' @ str ''i.png'') = Inr True"
  by (simp add: sample_env_def sample_files_def str_def)

lemma sample_png_type:
  "resolve_content_type sample_env (str ''/d/'' @ str ''i.png'') None = str ''image/png''"
  by (simp add: resolve_content_type_def sample_env_def str_def)

lemma sample_png_bytes:
  "read_bytes sample_env (str ''/d/'' @ str ''i.png'') = Inr [137, 80, 78, 71]"
  by (simp add: sample_env_def sample_files_def str_def)

text \<open>
  Claim C8. For every call on an existing collection and an existing path whose resolved
  content type starts with \<open>image/\<close>, \<open>ingest_file\<close> calls \<open>collection.add\<close> not once,
  whatever reading the file does; and when the file can be read, it returns the bytes as
  an inline image, whose format is the part of the type after its last slash, with the
  resolved content type and the number of bytes.
\<close>

theorem ingest_image:
  assumes "chroma_client e = Some client"
    and "get_collection client collection_name = Inr u"
    and "resolve_path e file_path = Inr path"
    and "path_exists e path = Inr True"
    and "ctype = resolve_content_type e path content_type"
    and "startswith ctype (str ''image/'')"
  shows "snd (ingest_file e file_path collection_name content_type) = []
    \<and> (\<forall>binary_data. read_bytes e path = Inr binary_data \<longrightarrow>
          fst (ingest_file e file_path collection_name content_type) =
            Returns [(''content'', PyImage binary_data (split_last ctype)),
                     (''content_type'', PyStr ctype),
                     (''size'', PyInt (int (length binary_data)))])"
  using assms startswith_nonempty [of ctype]
  by (auto simp: ingest_file_def ingest_body_def Let_def split: sum.splits)

theorem ingest_image_witness:
  "chroma_client sample_env = Some sample_client
   \<and> get_collection sample_client (str ''docs'') = Inr ()
   \<and> resolve_path sample_env (str ''i.png'') = Inr (str ''/d/'' @ str ''i.png'')
   \<and> path_exists sample_env (str ''/d/'' @ str ''i.png'') = Inr True
   \<and> startswith (resolve_content_type sample_env (str ''/d/'' @ str ''i.png'') None) (str ''image/'')
   \<and> read_bytes sample_env (str ''/d/'' @ str ''i.png'') = Inr [137, 80, 78, 71]
   \<and> snd (ingest_file sample_env (str ''i.png'') (str ''docs'') None) = []
   \<and> fst (ingest_file sample_env (str ''i.png'') (str ''docs'') None) =
        Returns [(''content'', PyImage [137, 80, 78, 71] (str ''png'')),
                 (''content_type'', PyStr (str ''image/png'')),
                 (''size'', PyInt 4)]"
proof -
  have t: "startswith (resolve_content_type sample_env (str ''/d/'' @ str ''i.png'') None) (str ''image/'')"
    by (simp add: sample_png_type) (simp add: startswith_def str_def)
  have s: "split_last (str ''image/png'') = str ''png''"
    by (simp add: split_last_def str_def)
  from ingest_image [OF sample_has_client sample_has_docs sample_resolve sample_png_exists refl t]
    sample_has_client sample_has_docs sample_resolve sample_png_exists t sample_png_bytes s
  show ?thesis
    by (simp add: sample_png_type)
qed


section \<open>The text and binary branches\<close>

lemma text_block_decode_error:
  "read_text e p = Inl x \<Longrightarrow> text_block e client chunker p cn ct = (TextRaised x None, [])"
  by (simp add: text_block_def)

lemma text_block_chunked:
  assumes "read_text e p = Inr content"
    and "chunker content = Inr chunks"
    and "get_collection client cn = Inr u"
  shows "text_block e client chunker p cn ct =
           (case collection_add client
                   \<lparr>collection = cn, documents = map chunk_text chunks,
                      metadatas = map (\<lambda>j. [(''source_file'', PyStr p), (''content_type'', PyStr ct),
                                          (''chunk_index'', PyInt (int j)),
                                          (''total_chunks'', PyInt (int (length chunks)))])
                                    [0..<length chunks],
                      ids = map (uuid4 e) [0..<length chunks]\<rparr> of
              Inl x \<Rightarrow> (TextRaised x (Some chunks),
                 [\<lparr>collection = cn, documents = map chunk_text chunks,
                      metadatas = map (\<lambda>j. [(''source_file'', PyStr p), (''content_type'', PyStr ct),
                                          (''chunk_index'', PyInt (int j)),
                                          (''total_chunks'', PyInt (int (length chunks)))])
                                    [0..<length chunks],
                      ids = map (uuid4 e) [0..<length chunks]\<rparr>])
            | Inr v \<Rightarrow> (TextDone content (length content) chunks,
                 [\<lparr>collection = cn, documents = map chunk_text chunks,
                      metadatas = map (\<lambda>j. [(''source_file'', PyStr p), (''content_type'', PyStr ct),
                                          (''chunk_index'', PyInt (int j)),
                                          (''total_chunks'', PyInt (int (length chunks)))])
                                    [0..<length chunks],
                      ids = map (uuid4 e) [0..<length chunks]\<rparr>]))"
  using assms by (simp add: text_block_def process_chunks_eq Let_def)

lemma binary_block_read:
  assumes "read_bytes e p = Inr binary_data"
    and "get_collection client cn = Inr u"
  shows "binary_block e client p cn ct k =
           (case collection_add client
                   \<lparr>collection = cn,
                      documents = [binary_placeholder ct (length binary_data)],
                      metadatas = [[(''source_file'', PyStr p), (''content_type'', PyStr ct),
                                    (''is_binary'', PyBool True)]],
                      ids = [uuid4 e k]\<rparr> of
              Inl x \<Rightarrow> (Inl x,
                 [\<lparr>collection = cn,
                      documents = [binary_placeholder ct (length binary_data)],
                      metadatas = [[(''source_file'', PyStr p), (''content_type'', PyStr ct),
                                    (''is_binary'', PyBool True)]],
                      ids = [uuid4 e k]\<rparr>])
            | Inr v \<Rightarrow> (Inr (binary_placeholder ct (length binary_data), length binary_data),
                 [\<lparr>collection = cn,
                      documents = [binary_placeholder ct (length binary_data)],
                      metadatas = [[(''source_file'', PyStr p), (''content_type'', PyStr ct),
                                    (''is_binary'', PyBool True)]],
                      ids = [uuid4 e k]\<rparr>]))"
  using assms by (simp add: binary_block_def Let_def)

lemma ingest_body_not_image:
  assumes "resolve_path e fp = Inr p"
    and "path_exists e p = Inr True"
    and "\<not> startswith (resolve_content_type e p ct) (str ''image/'')"
    and "RecursiveChunker e 1024 = Inr chunker"
  shows "ingest_body e client fp cn ct =
           (case text_block e client chunker p cn (resolve_content_type e p ct) of
              (TextDone content sz chunks, w) \<Rightarrow>
                (Inr (summary content (resolve_content_type e p ct) sz (length chunks)), w)
            | (TextRaised x bound, w) \<Rightarrow>
                if is_UnicodeDecodeError x then
                  (case binary_block e client p cn (resolve_content_type e p ct)
                          (case bound of None \<Rightarrow> 0 | Some cs \<Rightarrow> length cs) of
                     (Inl y, w') \<Rightarrow> (Inl y, w @ w')
                   | (Inr (content, sz), w') \<Rightarrow>
                       (Inr (summary content (resolve_content_type e p ct) sz
                               (case bound of None \<Rightarrow> 1 | Some cs \<Rightarrow> length cs)),
                        w @ w'))
                else (Inl x, w))"
  using assms by (simp add: ingest_body_def Let_def)

text \<open>
  Claim C9. For every call on an existing collection and an existing path that is not
  classified as an image and whose reading as UTF-8 text raises \<open>UnicodeDecodeError\<close>,
  \<open>ingest_file\<close> calls \<open>collection.add\<close> exactly once, with one document, the placeholder
  built from the content type and the number of bytes, one metadata record with
  \<open>is_binary = True\<close> and one identifier; when the store accepts the call, the response
  reports \<open>chunks_created = 1\<close>.
\<close>

theorem ingest_binary:
  assumes "chroma_client e = Some client"
    and "get_collection client collection_name = Inr u"
    and "resolve_path e file_path = Inr path"
    and "path_exists e path = Inr True"
    and "ctype = resolve_content_type e path content_type"
    and "\<not> startswith ctype (str ''image/'')"
    and "RecursiveChunker e 1024 = Inr chunker"
    and "read_text e path = Inl x"
    and "is_UnicodeDecodeError x"
    and "read_bytes e path = Inr binary_data"
    and "placeholder = str ''<Binary data of type '' @ ctype @ str '', size ''
                         @ str_of_nat (length binary_data) @ str '' bytes>''"
    and "call = \<lparr>collection = collection_name, documents = [placeholder],
                   metadatas = [[(''source_file'', PyStr path), (''content_type'', PyStr ctype),
                                 (''is_binary'', PyBool True)]],
                   ids = [uuid4 e 0]\<rparr>"
  shows "snd (ingest_file e file_path collection_name content_type) = [call]
    \<and> (collection_add client call = Inr () \<longrightarrow>
          fst (ingest_file e file_path collection_name content_type) =
            Returns [(''content'', PyStr (if length placeholder > 100
                                          then take 100 placeholder @ str ''...''
                                          else placeholder)),
                     (''content_type'', PyStr ctype),
                     (''size'', PyInt (int (length binary_data))),
                     (''chunks_created'', PyInt 1)])"
proof -
  have n: "\<not> startswith (resolve_content_type e path content_type) (str ''image/'')"
    using assms(5,6) by simp
  have p: "placeholder = binary_placeholder (resolve_content_type e path content_type) (length binary_data)"
    unfolding assms(11) assms(5) by (simp add: binary_placeholder_def)
  have "ingest_body e client file_path collection_name content_type =
          (case collection_add client call of
             Inl y \<Rightarrow> (Inl y, [call])
           | Inr v \<Rightarrow> (Inr (summary placeholder ctype (length binary_data) 1), [call]))"
    unfolding ingest_body_not_image [OF assms(3,4) n assms(7)]
      text_block_decode_error [OF assms(8)]
      binary_block_read [OF assms(10) assms(2)] assms(12) p assms(5)
    using assms(9) by (simp split: sum.splits)
  then show ?thesis
    using assms(1,2)
    by (auto simp: ingest_file_def summary_def truncated_content_def split: sum.splits)
qed


lemma sample_chunker:
  "RecursiveChunker sample_env 1024 =
     Inr (\<lambda>t. case chunk_spec sample_boundaries t 1024 of
                 None \<Rightarrow> Inl (Exn ValueError (str ''chunk_size must be positive''))
               | Some fs \<Rightarrow> Inr (map Chunk fs))"
  by (simp add: sample_env_def)

lemma sample_bin_exists: "path_exists sample_env (str ''/d/'' @ str ''b.bin'') = Inr True"
  by (simp add: sample_env_def sample_files_def str_def)

lemma sample_bin_type:
  "resolve_content_type sample_env (str ''/d/'' @ str ''b.bin'') None =
     str ''application/octet-stream''"
  by (simp add: resolve_content_type_def sample_env_def str_def)

lemma sample_bin_bytes:
  "read_bytes sample_env (str ''/d/'' @ str ''b.bin'') = Inr [255, 254]"
  by (simp add: sample_env_def sample_files_def str_def)

lemma sample_bin_text:
  "read_text sample_env (str ''/d/'' @ str ''b.bin'') =
     Inl (Exn UnicodeDecodeError (str ''invalid start byte''))"
  by (simp add: sample_env_def sample_files_def str_def)

lemma octet_stream_not_image:
  "\<not> startswith (str ''application/octet-stream'') (str ''image/'')"
  by (simp add: startswith_def str_def)

theorem ingest_binary_witness:
  "chroma_client sample_env = Some sample_client
   \<and> get_collection sample_client (str ''docs'') = Inr ()
   \<and> resolve_path sample_env (str ''b.bin'') = Inr (str ''/d/'' @ str ''b.bin'')
   \<and> path_exists sample_env (str ''/d/'' @ str ''b.bin'') = Inr True
   \<and> resolve_content_type sample_env (str ''/d/'' @ str ''b.bin'') None
        = str ''application/octet-stream''
   \<and> \<not> startswith (str ''application/octet-stream'') (str ''image/'')
   \<and> read_text sample_env (str ''/d/'' @ str ''b.bin'')
        = Inl (Exn UnicodeDecodeError (str ''invalid start byte''))
   \<and> is_UnicodeDecodeError (Exn UnicodeDecodeError (str ''invalid start byte''))
   \<and> read_bytes sample_env (str ''/d/'' @ str ''b.bin'') = Inr [255, 254]
   \<and> snd (ingest_file sample_env (str ''b.bin'') (str ''docs'') None) =
        [\<lparr>collection = str ''docs'',
           documents = [str ''<Binary data of type application/octet-stream, size 2 bytes>''],
           metadatas = [[(''source_file'', PyStr (str ''/d/b.bin'')),
                         (''content_type'', PyStr (str ''application/octet-stream'')),
                         (''is_binary'', PyBool True)]],
           ids = [str ''id0'']\<rparr>]
   \<and> fst (ingest_file sample_env (str ''b.bin'') (str ''docs'') None) =
        Returns [(''content'', PyStr (str ''<Binary data of type application/octet-stream, size 2 bytes>'')),
                 (''content_type'', PyStr (str ''application/octet-stream'')),
                 (''size'', PyInt 2),
                 (''chunks_created'', PyInt 1)]"
proof -
  have u: "is_UnicodeDecodeError (Exn UnicodeDecodeError (str ''invalid start byte''))"
    by simp
  have i: "uuid4 sample_env 0 = str ''id0''"
    by (simp add: sample_env_def str_def)
  have ph: "str ''<Binary data of type '' @ str ''application/octet-stream'' @ str '', size ''
               @ str_of_nat (length [255, 254 :: byte]) @ str '' bytes>''
            = str ''<Binary data of type application/octet-stream, size 2 bytes>''"
    by (simp add: str_def)
  have pa: "str ''/d/'' @ str ''b.bin'' = str ''/d/b.bin''"
    by (simp add: str_def)
  have le: "length (str ''<Binary data of type application/octet-stream, size 2 bytes>'') \<le> 100"
    by (simp add: str_def)
  have ok: "collection_add sample_client
              \<lparr>collection = str ''docs'',
                 documents = [str ''<Binary data of type application/octet-stream, size 2 bytes>''],
                 metadatas = [[(''source_file'', PyStr (str ''/d/b.bin'')),
                               (''content_type'', PyStr (str ''application/octet-stream'')),
                               (''is_binary'', PyBool True)]],
                 ids = [str ''id0'']\<rparr> = Inr ()"
    by (simp add: sample_client_def str_def)
  from ingest_binary [OF sample_has_client sample_has_docs sample_resolve sample_bin_exists
      sample_bin_type [symmetric] octet_stream_not_image sample_chunker sample_bin_text u
      sample_bin_bytes refl refl]
    sample_has_client sample_has_docs sample_resolve sample_bin_exists sample_bin_type
    octet_stream_not_image sample_bin_text u sample_bin_bytes i ph pa le ok
  show ?thesis
    by (simp add: str_def)
qed

section \<open>The metadata of the text branch\<close>

lemma sample_lines_chunks:
  "chunk_spec sample_boundaries [97, 10, 98, 10, 99] 1024 = Some [[97], [98], [99]]"
  by (simp add: chunk_spec_def sample_boundaries_def)

lemma sample_lines_exists: "path_exists sample_env (str ''/d/'' @ str ''l.txt'') = Inr True"
  by (simp add: sample_env_def sample_files_def str_def)

lemma sample_lines_type:
  "resolve_content_type sample_env (str ''/d/'' @ str ''l.txt'') None = str ''text/plain''"
  by (simp add: resolve_content_type_def sample_env_def str_def)

lemma sample_lines_text:
  "read_text sample_env (str ''/d/'' @ str ''l.txt'') = Inr [97, 10, 98, 10, 99]"
  by (simp add: sample_env_def sample_files_def str_def)

lemma text_plain_not_image: "\<not> startswith (str ''text/plain'') (str ''image/'')"
  by (simp add: startswith_def str_def)

lemma ingest_file_text:
  assumes "chroma_client e = Some client"
    and "get_collection client cn = Inr u"
    and "resolve_path e fp = Inr p"
    and "path_exists e p = Inr True"
    and "\<not> startswith (resolve_content_type e p ct) (str ''image/'')"
    and "RecursiveChunker e 1024 = Inr chunker"
    and "read_text e p = Inr content"
    and "chunker content = Inr chunks"
    and "call = \<lparr>collection = cn, documents = map chunk_text chunks,
                   metadatas = map (\<lambda>j. [(''source_file'', PyStr p),
                                          (''content_type'', PyStr (resolve_content_type e p ct)),
                                          (''chunk_index'', PyInt (int j)),
                                          (''total_chunks'', PyInt (int (length chunks)))])
                                 [0..<length chunks],
                   ids = map (uuid4 e) [0..<length chunks]\<rparr>"
  shows "(\<exists>rest. snd (ingest_file e fp cn ct) = call # rest)
    \<and> (collection_add client call = Inr () \<longrightarrow>
         ingest_file e fp cn ct =
           (Returns (summary content (resolve_content_type e p ct) (length content)
                       (length chunks)), [call]))
    \<and> (\<forall>x. collection_add client call = Inl x \<and> \<not> is_UnicodeDecodeError x \<longrightarrow>
         ingest_body e client fp cn ct = (Inl x, [call]))"
proof -
  have t: "text_block e client chunker p cn (resolve_content_type e p ct) =
             (case collection_add client call of
                Inl x \<Rightarrow> (TextRaised x (Some chunks), [call])
              | Inr v \<Rightarrow> (TextDone content (length content) chunks, [call]))"
    unfolding assms(9)
    using text_block_chunked [where chunker = chunker and content = content, OF assms(7,8,2)]
    by simp
  show ?thesis
    using assms(1,2)
    by (auto simp: ingest_file_def ingest_body_not_image [OF assms(3-6)] t
          split: sum.splits prod.splits)
qed

text \<open>
  Claim C4. For every call on the text path whose chunker returns \<open>n\<close> chunks, the first
  \<open>collection.add\<close> call carries the texts of the chunks in order, \<open>n\<close> metadata records
  and \<open>n\<close> identifiers; the \<open>chunk_index\<close> values of the records are \<open>0, ..., n - 1\<close> in
  this order and every \<open>total_chunks\<close> is \<open>n\<close>. It is the only call when the store
  accepts it.
\<close>

theorem text_chunk_indices:
  assumes "chroma_client e = Some client"
    and "get_collection client collection_name = Inr u"
    and "resolve_path e file_path = Inr path"
    and "path_exists e path = Inr True"
    and "\<not> startswith (resolve_content_type e path content_type) (str ''image/'')"
    and "RecursiveChunker e 1024 = Inr chunker"
    and "read_text e path = Inr content"
    and "chunker content = Inr chunks"
  shows "\<exists>call rest. snd (ingest_file e file_path collection_name content_type) = call # rest
    \<and> (collection_add client call = Inr () \<longrightarrow> rest = [])
    \<and> documents call = map chunk_text chunks
    \<and> length (metadatas call) = length chunks
    \<and> length (ids call) = length chunks
    \<and> map (\<lambda>m. map_of m ''chunk_index'') (metadatas call)
          = map (\<lambda>i. Some (PyInt (int i))) [0..<length chunks]
    \<and> (\<forall>m \<in> set (metadatas call).
          map_of m ''total_chunks'' = Some (PyInt (int (length chunks))))"
proof -
  define call where
    "call = \<lparr>collection = collection_name, documents = map chunk_text chunks,
              metadatas = map (\<lambda>j. [(''source_file'', PyStr path),
                                     (''content_type'',
                                      PyStr (resolve_content_type e path content_type)),
                                     (''chunk_index'', PyInt (int j)),
                                     (''total_chunks'', PyInt (int (length chunks)))])
                            [0..<length chunks],
              ids = map (uuid4 e) [0..<length chunks]\<rparr>"
  from ingest_file_text [OF assms call_def]
  obtain rest where r: "snd (ingest_file e file_path collection_name content_type) = call # rest"
    and ok: "collection_add client call = Inr () \<longrightarrow>
               ingest_file e file_path collection_name content_type =
                 (Returns (summary content (resolve_content_type e path content_type)
                             (length content) (length chunks)), [call])"
    by blast
  have "collection_add client call = Inr () \<longrightarrow> rest = []"
    using r ok by auto
  moreover have "documents call = map chunk_text chunks"
    and "length (metadatas call) = length chunks"
    and "length (ids call) = length chunks"
    and "map (\<lambda>m. map_of m ''chunk_index'') (metadatas call)
          = map (\<lambda>i. Some (PyInt (int i))) [0..<length chunks]"
    and "\<forall>m \<in> set (metadatas call).
          map_of m ''total_chunks'' = Some (PyInt (int (length chunks)))"
    by (simp_all add: call_def)
  ultimately show ?thesis
    using r by blast
qed


theorem text_chunk_indices_witness:
  "chroma_client sample_env = Some sample_client
   \<and> get_collection sample_client (str ''docs'') = Inr ()
   \<and> resolve_path sample_env (str ''l.txt'') = Inr (str ''/d/'' @ str ''l.txt'')
   \<and> path_exists sample_env (str ''/d/'' @ str ''l.txt'') = Inr True
   \<and> \<not> startswith (resolve_content_type sample_env (str ''/d/'' @ str ''l.txt'') None)
          (str ''image/'')
   \<and> read_text sample_env (str ''/d/'' @ str ''l.txt'') = Inr [97, 10, 98, 10, 99]
   \<and> chunk_spec sample_boundaries [97, 10, 98, 10, 99] 1024 = Some [[97], [98], [99]]
   \<and> (\<exists>call. snd (ingest_file sample_env (str ''l.txt'') (str ''docs'') None) = [call]
         \<and> documents call = [[97], [98], [99]]
         \<and> map (\<lambda>m. map_of m ''chunk_index'') (metadatas call)
              = [Some (PyInt 0), Some (PyInt 1), Some (PyInt 2)]
         \<and> (\<forall>m \<in> set (metadatas call). map_of m ''total_chunks'' = Some (PyInt 3)))"
proof -
  have n: "\<not> startswith (resolve_content_type sample_env (str ''/d/'' @ str ''l.txt'') None)
             (str ''image/'')"
    by (simp add: sample_lines_type text_plain_not_image)
  have c: "(\<lambda>t. case chunk_spec sample_boundaries t 1024 of
                  None \<Rightarrow> Inl (Exn ValueError (str ''chunk_size must be positive''))
                | Some fs \<Rightarrow> Inr (map Chunk fs)) [97, 10, 98, 10, 99]
           = Inr [Chunk [97], Chunk [98], Chunk [99]]"
    by (simp add: sample_lines_chunks)
  have u: "[0..<length [Chunk [97], Chunk [98], Chunk [99]]] = [0, 1, 2]"
    by (simp add: upt_rec)
  from text_chunk_indices [OF sample_has_client sample_has_docs sample_resolve
      sample_lines_exists n sample_chunker sample_lines_text c]
  obtain call rest where
    r: "snd (ingest_file sample_env (str ''l.txt'') (str ''docs'') None) = call # rest"
    and ok: "collection_add sample_client call = Inr () \<longrightarrow> rest = []"
    and d: "documents call = map chunk_text [Chunk [97], Chunk [98], Chunk [99]]"
    and i: "length (ids call) = length [Chunk [97], Chunk [98], Chunk [99]]"
    and ci: "map (\<lambda>m. map_of m ''chunk_index'') (metadatas call)
              = map (\<lambda>i. Some (PyInt (int i))) [0..<length [Chunk [97], Chunk [98], Chunk [99]]]"
    and tc: "\<forall>m \<in> set (metadatas call). map_of m ''total_chunks''
              = Some (PyInt (int (length [Chunk [97], Chunk [98], Chunk [99]])))"
    by blast
  have "ids call \<noteq> []"
    using i by auto
  then have "rest = []"
    using ok by (simp add: sample_client_def)
  then have a: "snd (ingest_file sample_env (str ''l.txt'') (str ''docs'') None) = [call]"
    using r by (simp only:)
  have b: "documents call = [[97], [98], [99]]"
    unfolding d by simp
  have m: "map (\<lambda>i. Some (PyInt (int i))) [0, 1, 2]
             = [Some (PyInt 0), Some (PyInt 1), Some (PyInt 2)]"
    by simp
  have c': "map (\<lambda>m. map_of m ''chunk_index'') (metadatas call)
              = [Some (PyInt 0), Some (PyInt 1), Some (PyInt 2)]"
    unfolding ci u m by (rule refl)
  have l: "PyInt (int (length [Chunk [97], Chunk [98], Chunk [99]])) = PyInt 3"
    by simp
  have t: "\<forall>m \<in> set (metadatas call). map_of m ''total_chunks'' = Some (PyInt 3)"
    using tc unfolding l by (rule iffD1 [OF refl])
  have e: "\<exists>call. snd (ingest_file sample_env (str ''l.txt'') (str ''docs'') None) = [call]
         \<and> documents call = [[97], [98], [99]]
         \<and> map (\<lambda>m. map_of m ''chunk_index'') (metadatas call)
              = [Some (PyInt 0), Some (PyInt 1), Some (PyInt 2)]
         \<and> (\<forall>m \<in> set (metadatas call). map_of m ''total_chunks'' = Some (PyInt 3))"
    using a b c' t by (intro exI [of _ call] conjI)
  show ?thesis
    using e n sample_has_client sample_has_docs sample_resolve [of "str ''l.txt''"]
      sample_lines_exists sample_lines_text sample_lines_chunks
    by (intro conjI)
qed

section \<open>The empty file\<close>

text \<open>
  Claim C1, as the code has it. For every call on an existing collection and an existing
  path that is not classified as an image and whose text is empty, with a chunker that
  gives no chunk for the empty text, \<open>ingest_file\<close> does call \<open>collection.add\<close>, with no
  document, no metadata record and no identifier. When the store accepts that call it is
  the only one and the response has the empty content, size 0 and \<open>chunks_created = 0\<close>;
  when the store raises an exception of class \<open>Exception\<close> other than
  \<open>UnicodeDecodeError\<close>, the response is the error dictionary with the message of the
  exception.
\<close>

theorem ingest_empty_file:
  assumes "chroma_client e = Some client"
    and "get_collection client collection_name = Inr u"
    and "resolve_path e file_path = Inr path"
    and "path_exists e path = Inr True"
    and "\<not> startswith (resolve_content_type e path content_type) (str ''image/'')"
    and "RecursiveChunker e 1024 = Inr chunker"
    and "read_text e path = Inr []"
    and "chunker [] = Inr []"
    and "call = \<lparr>collection = collection_name, documents = [], metadatas = [], ids = []\<rparr>"
  shows "(\<exists>rest. snd (ingest_file e file_path collection_name content_type) = call # rest)
    \<and> (collection_add client call = Inr () \<longrightarrow>
         ingest_file e file_path collection_name content_type =
           (Returns [(''content'', PyStr []),
                     (''content_type'', PyStr (resolve_content_type e path content_type)),
                     (''size'', PyInt 0), (''chunks_created'', PyInt 0)], [call]))
    \<and> (\<forall>x. collection_add client call = Inl x \<and> is_Exception x \<and> \<not> is_UnicodeDecodeError x \<longrightarrow>
         ingest_file e file_path collection_name content_type =
           (Returns [(''error'', PyStr (str ''Error reading file: '' @ exn_str x))], [call]))"
proof -
  have c: "call = \<lparr>collection = collection_name, documents = map chunk_text [],
                   metadatas = map (\<lambda>j. [(''source_file'', PyStr path),
                                          (''content_type'',
                                           PyStr (resolve_content_type e path content_type)),
                                          (''chunk_index'', PyInt (int j)),
                                          (''total_chunks'', PyInt (int (length ([]::chunk list))))])
                                 [0..<length ([]::chunk list)],
                   ids = map (uuid4 e) [0..<length ([]::chunk list)]\<rparr>"
    using assms(9) by simp
  note t = ingest_file_text [where chunker = chunker and content = "[]" and chunks = "[]",
      OF assms(1-8) c]
  have "\<forall>x. collection_add client call = Inl x \<and> is_Exception x \<and> \<not> is_UnicodeDecodeError x \<longrightarrow>
         ingest_file e file_path collection_name content_type =
           (Returns [(''error'', PyStr (str ''Error reading file: '' @ exn_str x))], [call])"
    using t assms(1,2) by (auto simp: ingest_file_def)
  moreover have "collection_add client call = Inr () \<longrightarrow>
         ingest_file e file_path collection_name content_type =
           (Returns [(''content'', PyStr []),
                     (''content_type'', PyStr (resolve_content_type e path content_type)),
                     (''size'', PyInt 0), (''chunks_created'', PyInt 0)], [call])"
    using t by (simp add: summary_def truncated_content_def)
  ultimately show ?thesis
    using t by blast
qed

lemma lenient_has_client: "chroma_client lenient_env = Some lenient_client"
  by (simp add: lenient_env_def)

lemma lenient_has_docs: "get_collection lenient_client (str ''docs'') = Inr ()"
  by (simp add: lenient_client_def)

lemma lenient_resolve: "resolve_path lenient_env f = Inr (str ''/d/'' @ f)"
  by (simp add: lenient_env_def sample_env_def)

lemma lenient_chunker:
  "RecursiveChunker lenient_env 1024 =
     Inr (\<lambda>t. case chunk_spec sample_boundaries t 1024 of
                 None \<Rightarrow> Inl (Exn ValueError (str ''chunk_size must be positive''))
               | Some fs \<Rightarrow> Inr (map Chunk fs))"
  by (simp add: lenient_env_def sample_env_def)

lemma lenient_empty_exists: "path_exists lenient_env (str ''/d/'' @ str ''e.txt'') = Inr True"
  by (simp add: lenient_env_def sample_env_def sample_files_def str_def)

lemma lenient_empty_type:
  "resolve_content_type lenient_env (str ''/d/'' @ str ''e.txt'') None = str ''text/plain''"
  by (simp add: resolve_content_type_def lenient_env_def sample_env_def str_def)

lemma lenient_empty_text: "read_text lenient_env (str ''/d/'' @ str ''e.txt'') = Inr []"
  by (simp add: lenient_env_def sample_env_def sample_files_def str_def)

lemma sample_chunker_empty:
  "(\<lambda>t. case chunk_spec sample_boundaries t 1024 of
            None \<Rightarrow> Inl (Exn ValueError (str ''chunk_size must be positive''))
          | Some fs \<Rightarrow> Inr (map Chunk fs)) [] = Inr []"
  by (simp add: chunk_spec_def)

theorem ingest_empty_file_witness:
  "chroma_client lenient_env = Some lenient_client
   \<and> get_collection lenient_client (str ''docs'') = Inr ()
   \<and> resolve_path lenient_env (str ''e.txt'') = Inr (str ''/d/'' @ str ''e.txt'')
   \<and> path_exists lenient_env (str ''/d/'' @ str ''e.txt'') = Inr True
   \<and> \<not> startswith (resolve_content_type lenient_env (str ''/d/'' @ str ''e.txt'') None)
          (str ''image/'')
   \<and> read_text lenient_env (str ''/d/'' @ str ''e.txt'') = Inr []
   \<and> collection_add lenient_client
        \<lparr>collection = str ''docs'', documents = [], metadatas = [], ids = []\<rparr> = Inr ()
   \<and> ingest_file lenient_env (str ''e.txt'') (str ''docs'') None =
        (Returns [(''content'', PyStr []), (''content_type'', PyStr (str ''text/plain'')),
                  (''size'', PyInt 0), (''chunks_created'', PyInt 0)],
         [\<lparr>collection = str ''docs'', documents = [], metadatas = [], ids = []\<rparr>])"
proof -
  have n: "\<not> startswith (resolve_content_type lenient_env (str ''/d/'' @ str ''e.txt'') None)
             (str ''image/'')"
    by (simp add: lenient_empty_type text_plain_not_image)
  have a: "collection_add lenient_client
        \<lparr>collection = str ''docs'', documents = [], metadatas = [], ids = []\<rparr> = Inr ()"
    by (simp add: lenient_client_def)
  from ingest_empty_file [where chunker = "\<lambda>t. case chunk_spec sample_boundaries t 1024 of
                 None \<Rightarrow> Inl (Exn ValueError (str ''chunk_size must be positive''))
               | Some fs \<Rightarrow> Inr (map Chunk fs)",
      OF lenient_has_client lenient_has_docs lenient_resolve
      lenient_empty_exists n lenient_chunker lenient_empty_text sample_chunker_empty refl]
  have "ingest_file lenient_env (str ''e.txt'') (str ''docs'') None =
        (Returns [(''content'', PyStr []), (''content_type'', PyStr (str ''text/plain'')),
                  (''size'', PyInt 0), (''chunks_created'', PyInt 0)],
         [\<lparr>collection = str ''docs'', documents = [], metadatas = [], ids = []\<rparr>])"
    using a by (simp add: lenient_empty_type)
  then show ?thesis
    using n a lenient_has_client lenient_has_docs lenient_resolve [of "str ''e.txt''"]
      lenient_empty_exists lenient_empty_text
    by (intro conjI)
qed

text \<open>
  The claim as it was stated, no write to the store and a success, fails in the sample
  world, whose store refuses a batch without identifiers: the empty batch is sent and the
  call returns an error.
\<close>

theorem ingest_empty_file_counterexample:
  "ingest_file sample_env (str ''e.txt'') (str ''docs'') None =
     (Returns [(''error'',
                PyStr (str ''Error reading file: Expected IDs to be a non-empty list''))],
      [\<lparr>collection = str ''docs'', documents = [], metadatas = [], ids = []\<rparr>])"
  by (simp add: ingest_file_def ingest_body_def text_block_def sample_env_def sample_client_def
      sample_files_def resolve_content_type_def startswith_def chunk_spec_def str_def)

section \<open>What a call returns\<close>

lemma text_block_done:
  "text_block e client chunker p cn ct = (TextDone content sz chunks, w)
     \<Longrightarrow> read_text e p = Inr content"
  by (auto simp: text_block_def process_chunks_eq Let_def split: sum.splits)

lemma binary_block_done:
  "binary_block e client p cn ct k = (Inr (content, sz), w)
     \<Longrightarrow> \<exists>bs. read_bytes e p = Inr bs \<and> content = binary_placeholder ct (length bs)"
  by (auto simp: binary_block_def Let_def split: sum.splits)

lemma ingest_body_chunked:
  assumes "ingest_body e client fp cn ct = (Inr d, w)"
    and "map_of d ''chunks_created'' \<noteq> None"
  shows "\<exists>p chunker. resolve_path e fp = Inr p \<and> path_exists e p = Inr True
      \<and> \<not> startswith (resolve_content_type e p ct) (str ''image/'')
      \<and> RecursiveChunker e 1024 = Inr chunker"
  using assms startswith_nonempty
  by (auto simp: ingest_body_def Let_def split: sum.splits if_splits)

lemma ingest_body_summary:
  assumes "ingest_body e client fp cn ct = (Inr d, w)"
    and "map_of d ''chunks_created'' \<noteq> None"
  shows "\<exists>p content. resolve_path e fp = Inr p
      \<and> (read_text e p = Inr content
          \<or> (\<exists>bs. read_bytes e p = Inr bs
                \<and> content = binary_placeholder (resolve_content_type e p ct) (length bs)))
      \<and> map_of d ''content'' = Some (PyStr (truncated_content content))"
proof -
  from ingest_body_chunked [OF assms] obtain p chunker where
    p: "resolve_path e fp = Inr p" and x: "path_exists e p = Inr True"
    and n: "\<not> startswith (resolve_content_type e p ct) (str ''image/'')"
    and c: "RecursiveChunker e 1024 = Inr chunker"
    by blast
  note b = assms(1) [unfolded ingest_body_not_image [OF p x n c]]
  obtain r w1 where t: "text_block e client chunker p cn (resolve_content_type e p ct) = (r, w1)"
    by (cases "text_block e client chunker p cn (resolve_content_type e p ct)")
  show ?thesis
  proof (cases r)
    case (TextDone content sz chunks)
    have "read_text e p = Inr content"
      using text_block_done [where chunker = chunker] t TextDone by blast
    moreover have "map_of d ''content'' = Some (PyStr (truncated_content content))"
      using b t TextDone by (auto simp: summary_def)
    ultimately show ?thesis
      using p by blast
  next
    case (TextRaised y bound)
    obtain k where k: "k = (case bound of None \<Rightarrow> 0 | Some cs \<Rightarrow> length cs)"
      by simp
    obtain r2 w2 where
      bb: "binary_block e client p cn (resolve_content_type e p ct) k = (r2, w2)"
      by (cases "binary_block e client p cn (resolve_content_type e p ct) k")
    from b t TextRaised bb k obtain content sz where r2: "r2 = Inr (content, sz)"
      and dd: "d = summary content (resolve_content_type e p ct) sz
                     (case bound of None \<Rightarrow> 1 | Some cs \<Rightarrow> length cs)"
      by (cases r2) (auto split: if_splits)
    from binary_block_done [OF bb [unfolded r2]] obtain bs where
      "read_bytes e p = Inr bs"
      and "content = binary_placeholder (resolve_content_type e p ct) (length bs)"
      by blast
    moreover have "map_of d ''content'' = Some (PyStr (truncated_content content))"
      using dd by (simp add: summary_def)
    ultimately show ?thesis
      using p by blast
  qed
qed

lemma ingest_body_shapes:
  assumes "ingest_body e client fp cn ct = (Inr d, w)"
  shows "(\<exists>m. d = [(''error'', PyStr m)])
      \<or> (\<exists>b f t n. d = [(''content'', PyImage b f), (''content_type'', PyStr t),
                         (''size'', PyInt n)])
      \<or> (\<exists>c t n k. d = [(''content'', PyStr c), (''content_type'', PyStr t),
                         (''size'', PyInt n), (''chunks_created'', PyInt k)])"
  using assms
  by (auto simp: ingest_body_def Let_def summary_def
      split: sum.splits if_splits prod.splits text_outcome.splits)


lemma ingest_file_returns:
  assumes "fst (ingest_file e fp cn ct) = Returns d"
    and "\<not> (\<exists>m. d = [(''error'', PyStr m)])"
  shows "\<exists>client. ingest_body e client fp cn ct = (Inr d, snd (ingest_file e fp cn ct))"
proof (cases "chroma_client e")
  case None
  with assms show ?thesis
    by (auto simp: ingest_file_def)
next
  case (Some client)
  show ?thesis
  proof (cases "get_collection client cn")
    case (Inl x)
    with Some assms show ?thesis
      by (auto simp: ingest_file_def split: if_splits)
  next
    case (Inr u)
    obtain r w where b: "ingest_body e client fp cn ct = (r, w)"
      by (cases "ingest_body e client fp cn ct")
    show ?thesis
    proof (cases r)
      case (Inl x)
      with Some \<open>get_collection client cn = Inr u\<close> b assms show ?thesis
        by (auto simp: ingest_file_def split: if_splits)
    next
      case (Inr d')
      with Some \<open>get_collection client cn = Inr u\<close> b assms have "d' = d"
        and "snd (ingest_file e fp cn ct) = w"
        by (simp_all add: ingest_file_def)
      with b Inr show ?thesis
        by blast
    qed
  qed
qed

text \<open>
  Claim C7. Every response of a text or binary ingest, that is every returned dictionary
  with the key \<open>chunks_created\<close>, previews a content that is the text read from the file
  or the placeholder of its bytes: the preview is the content itself when it has at most
  100 characters, and its first 100 characters followed by \<open>...\<close> when it has more.
\<close>

theorem content_preview:
  assumes "ingest_file e file_path collection_name content_type = (Returns d, w)"
    and "map_of d ''chunks_created'' \<noteq> None"
  shows "\<exists>path content. resolve_path e file_path = Inr path
      \<and> (read_text e path = Inr content
          \<or> (\<exists>binary_data. read_bytes e path = Inr binary_data
                \<and> content = str ''<Binary data of type ''
                               @ resolve_content_type e path content_type @ str '', size ''
                               @ str_of_nat (length binary_data) @ str '' bytes>''))
      \<and> (length content \<le> 100 \<longrightarrow> map_of d ''content'' = Some (PyStr content))
      \<and> (length content > 100 \<longrightarrow>
            map_of d ''content'' = Some (PyStr (take 100 content @ str ''...'')))"
proof -
  have f: "fst (ingest_file e file_path collection_name content_type) = Returns d"
    using assms(1) by simp
  have "\<not> (\<exists>m. d = [(''error'', PyStr m)])"
    using assms(2) by auto
  from ingest_file_returns [OF f this] obtain client w' where
    "ingest_body e client file_path collection_name content_type = (Inr d, w')"
    by blast
  from ingest_body_summary [OF this assms(2)] obtain p content where
    p: "resolve_path e file_path = Inr p"
    and c: "read_text e p = Inr content
          \<or> (\<exists>bs. read_bytes e p = Inr bs
                \<and> content = binary_placeholder (resolve_content_type e p content_type) (length bs))"
    and m: "map_of d ''content'' = Some (PyStr (truncated_content content))"
    by blast
  have "length content \<le> 100 \<longrightarrow> map_of d ''content'' = Some (PyStr content)"
    and "length content > 100 \<longrightarrow>
            map_of d ''content'' = Some (PyStr (take 100 content @ str ''...''))"
    using m by (simp_all add: truncated_content_def)
  with p c show ?thesis
    unfolding binary_placeholder_def by blast
qed

lemma sample_text_ingest:
  "ingest_file sample_env (str ''t.txt'') (str ''docs'') None =
     (Returns [(''content'', PyStr (str ''Hi. Yo'')), (''content_type'', PyStr (str ''text/plain'')),
               (''size'', PyInt 6), (''chunks_created'', PyInt 1)],
      [\<lparr>collection = str ''docs'', documents = [str ''Hi. Yo''],
         metadatas = [[(''source_file'', PyStr (str ''/d/t.txt'')),
                       (''content_type'', PyStr (str ''text/plain'')),
                       (''chunk_index'', PyInt 0), (''total_chunks'', PyInt 1)]],
         ids = [str ''id0'']\<rparr>])"
  by (simp add: ingest_file_def ingest_body_def text_block_def sample_env_def sample_client_def
      sample_files_def resolve_content_type_def startswith_def chunk_spec_def
      sample_boundaries_def summary_def truncated_content_def Let_def str_def)

theorem content_preview_witness:
  "ingest_file sample_env (str ''t.txt'') (str ''docs'') None =
     (Returns [(''content'', PyStr (str ''Hi. Yo'')), (''content_type'', PyStr (str ''text/plain'')),
               (''size'', PyInt 6), (''chunks_created'', PyInt 1)],
      [\<lparr>collection = str ''docs'', documents = [str ''Hi. Yo''],
         metadatas = [[(''source_file'', PyStr (str ''/d/t.txt'')),
                       (''content_type'', PyStr (str ''text/plain'')),
                       (''chunk_index'', PyInt 0), (''total_chunks'', PyInt 1)]],
         ids = [str ''id0'']\<rparr>])
   \<and> map_of [(''content'', PyStr (str ''Hi. Yo'')), (''content_type'', PyStr (str ''text/plain'')),
              (''size'', PyInt 6), (''chunks_created'', PyInt 1)] ''chunks_created'' = Some (PyInt 1)
   \<and> (\<exists>path content. resolve_path sample_env (str ''t.txt'') = Inr path
         \<and> (read_text sample_env path = Inr content
             \<or> (\<exists>binary_data. read_bytes sample_env path = Inr binary_data
                   \<and> content = str ''<Binary data of type ''
                                  @ resolve_content_type sample_env path None @ str '', size ''
                                  @ str_of_nat (length binary_data) @ str '' bytes>''))
         \<and> (length content \<le> 100 \<longrightarrow>
               map_of [(''content'', PyStr (str ''Hi. Yo'')),
                       (''content_type'', PyStr (str ''text/plain'')),
                       (''size'', PyInt 6), (''chunks_created'', PyInt 1)] ''content''
                 = Some (PyStr content))
         \<and> (length content > 100 \<longrightarrow>
               map_of [(''content'', PyStr (str ''Hi. Yo'')),
                       (''content_type'', PyStr (str ''text/plain'')),
                       (''size'', PyInt 6), (''chunks_created'', PyInt 1)] ''content''
                 = Some (PyStr (take 100 content @ str ''...''))))"
proof -
  have k: "map_of [(''content'', PyStr (str ''Hi. Yo'')), (''content_type'', PyStr (str ''text/plain'')),
              (''size'', PyInt 6), (''chunks_created'', PyInt 1)] ''chunks_created'' = Some (PyInt 1)"
    by simp
  then have k': "map_of [(''content'', PyStr (str ''Hi. Yo'')), (''content_type'', PyStr (str ''text/plain'')),
              (''size'', PyInt 6), (''chunks_created'', PyInt 1)] ''chunks_created'' \<noteq> None"
    by (simp only: option.distinct not_False_eq_True)
  from content_preview [OF sample_text_ingest k'] sample_text_ingest k show ?thesis
    by (intro conjI)
qed

lemma ingest_file_raises:
  assumes "fst (ingest_file e fp cn ct) = Raises x"
    and "is_Exception x"
  shows "\<exists>client. chroma_client e = Some client \<and> get_collection client cn = Inl x
           \<and> \<not> is_ValueError x \<and> snd (ingest_file e fp cn ct) = []"
proof (cases "chroma_client e")
  case None
  with assms show ?thesis
    by (auto simp: ingest_file_def)
next
  case (Some client)
  show ?thesis
  proof (cases "get_collection client cn")
    case (Inl y)
    with Some assms show ?thesis
      by (auto simp: ingest_file_def split: if_splits)
  next
    case (Inr u)
    obtain r w where b: "ingest_body e client fp cn ct = (r, w)"
      by (cases "ingest_body e client fp cn ct")
    show ?thesis
    proof (cases r)
      case (Inl y)
      with Some \<open>get_collection client cn = Inr u\<close> b assms show ?thesis
        by (auto simp: ingest_file_def split: if_splits)
    next
      case (Inr d')
      with Some \<open>get_collection client cn = Inr u\<close> b assms show ?thesis
        by (auto simp: ingest_file_def)
    qed
  qed
qed

lemma caught_lookup:
  assumes "chroma_client e = Some client"
    and "get_collection client cn = Inl x"
    and "is_ValueError x"
  shows "ingest_file e fp cn ct =
           (Returns [(''error'', PyStr (str ''Collection '' @ [39] @ cn @ [39]
                        @ str '' does not exist. Please create it first.''))], [])"
  using assms by (simp add: ingest_file_def)

lemma caught_body:
  assumes "chroma_client e = Some client"
    and "get_collection client cn = Inr u"
    and "ingest_body e client fp cn ct = (Inl x, w)"
    and "is_Exception x"
  shows "ingest_file e fp cn ct =
           (Returns [(''error'', PyStr (str ''Error reading file: '' @ exn_str x))], w)"
  using assms by (simp add: ingest_file_def)

lemma body_resolve:
  "resolve_path e fp = Inl x \<Longrightarrow> ingest_body e client fp cn ct = (Inl x, [])"
  by (simp add: ingest_body_def)

lemma body_exists:
  "resolve_path e fp = Inr p \<Longrightarrow> path_exists e p = Inl x
     \<Longrightarrow> ingest_body e client fp cn ct = (Inl x, [])"
  by (simp add: ingest_body_def)

lemma body_image_read:
  assumes "resolve_path e fp = Inr p"
    and "path_exists e p = Inr True"
    and "startswith (resolve_content_type e p ct) (str ''image/'')"
    and "read_bytes e p = Inl x"
  shows "ingest_body e client fp cn ct = (Inl x, [])"
  using assms startswith_nonempty [of "resolve_content_type e p ct"]
  by (simp add: ingest_body_def Let_def)

lemma body_constructor:
  assumes "resolve_path e fp = Inr p"
    and "path_exists e p = Inr True"
    and "\<not> startswith (resolve_content_type e p ct) (str ''image/'')"
    and "RecursiveChunker e 1024 = Inl x"
  shows "ingest_body e client fp cn ct = (Inl x, [])"
  using assms by (simp add: ingest_body_def Let_def)

lemma text_block_chunker_error:
  "read_text e p = Inr content \<Longrightarrow> chunker content = Inl x
     \<Longrightarrow> text_block e client chunker p cn ct = (TextRaised x None, [])"
  by (simp add: text_block_def)

lemma binary_block_read_error:
  "read_bytes e p = Inl y \<Longrightarrow> binary_block e client p cn ct k = (Inl y, [])"
  by (simp add: binary_block_def)

lemma body_text_raised:
  assumes "resolve_path e fp = Inr p"
    and "path_exists e p = Inr True"
    and "\<not> startswith (resolve_content_type e p ct) (str ''image/'')"
    and "RecursiveChunker e 1024 = Inr chunker"
    and "text_block e client chunker p cn (resolve_content_type e p ct) = (TextRaised x bound, w)"
    and "\<not> is_UnicodeDecodeError x"
  shows "ingest_body e client fp cn ct = (Inl x, w)"
  unfolding ingest_body_not_image [OF assms(1-4)] using assms(5,6) by simp

lemma body_binary:
  assumes "resolve_path e fp = Inr p"
    and "path_exists e p = Inr True"
    and "\<not> startswith (resolve_content_type e p ct) (str ''image/'')"
    and "RecursiveChunker e 1024 = Inr chunker"
    and "text_block e client chunker p cn (resolve_content_type e p ct) = (TextRaised x bound, w)"
    and "is_UnicodeDecodeError x"
  shows "ingest_body e client fp cn ct =
           (case binary_block e client p cn (resolve_content_type e p ct)
                   (case bound of None \<Rightarrow> 0 | Some cs \<Rightarrow> length cs) of
              (Inl y, w') \<Rightarrow> (Inl y, w @ w')
            | (Inr (content, sz), w') \<Rightarrow>
                (Inr (summary content (resolve_content_type e p ct) sz
                        (case bound of None \<Rightarrow> 1 | Some cs \<Rightarrow> length cs)),
                 w @ w'))"
  unfolding ingest_body_not_image [OF assms(1-4)] using assms(5,6) by simp

lemma body_text_done:
  assumes "resolve_path e fp = Inr p"
    and "path_exists e p = Inr True"
    and "\<not> startswith (resolve_content_type e p ct) (str ''image/'')"
    and "RecursiveChunker e 1024 = Inr chunker"
    and "text_block e client chunker p cn (resolve_content_type e p ct)
           = (TextDone content sz chunks, w)"
  shows "ingest_body e client fp cn ct =
           (Inr (summary content (resolve_content_type e p ct) sz (length chunks)), w)"
  unfolding ingest_body_not_image [OF assms(1-4)] using assms(5) by simp


lemma body_text_read:
  assumes "resolve_path e fp = Inr p"
    and "path_exists e p = Inr True"
    and "\<not> startswith (resolve_content_type e p ct) (str ''image/'')"
    and "RecursiveChunker e 1024 = Inr chunker"
    and "read_text e p = Inl x"
    and "\<not> is_UnicodeDecodeError x"
  shows "ingest_body e client fp cn ct = (Inl x, [])"
  using body_text_raised [OF assms(1-4) text_block_decode_error [OF assms(5)] assms(6)] .

lemma body_chunker:
  assumes "resolve_path e fp = Inr p"
    and "path_exists e p = Inr True"
    and "\<not> startswith (resolve_content_type e p ct) (str ''image/'')"
    and "RecursiveChunker e 1024 = Inr chunker"
    and "read_text e p = Inr content"
    and "chunker content = Inl x"
    and "\<not> is_UnicodeDecodeError x"
  shows "ingest_body e client fp cn ct = (Inl x, [])"
  using body_text_raised [OF assms(1-4)
      text_block_chunker_error [where chunker = chunker, OF assms(5,6)] assms(7)] .

lemma body_text_add:
  assumes "get_collection client cn = Inr u"
    and "resolve_path e fp = Inr p"
    and "path_exists e p = Inr True"
    and "\<not> startswith (resolve_content_type e p ct) (str ''image/'')"
    and "RecursiveChunker e 1024 = Inr chunker"
    and "read_text e p = Inr content"
    and "chunker content = Inr chunks"
    and "collection_add client
           \<lparr>collection = cn, documents = map chunk_text chunks,
              metadatas = map (\<lambda>j. [(''source_file'', PyStr p),
                                     (''content_type'', PyStr (resolve_content_type e p ct)),
                                     (''chunk_index'', PyInt (int j)),
                                     (''total_chunks'', PyInt (int (length chunks)))])
                            [0..<length chunks],
              ids = map (uuid4 e) [0..<length chunks]\<rparr> = Inl x"
    and "\<not> is_UnicodeDecodeError x"
  shows "ingest_body e client fp cn ct =
           (Inl x, [\<lparr>collection = cn, documents = map chunk_text chunks,
              metadatas = map (\<lambda>j. [(''source_file'', PyStr p),
                                     (''content_type'', PyStr (resolve_content_type e p ct)),
                                     (''chunk_index'', PyInt (int j)),
                                     (''total_chunks'', PyInt (int (length chunks)))])
                            [0..<length chunks],
              ids = map (uuid4 e) [0..<length chunks]\<rparr>])"
proof -
  have "text_block e client chunker p cn (resolve_content_type e p ct) =
          (TextRaised x (Some chunks),
           [\<lparr>collection = cn, documents = map chunk_text chunks,
              metadatas = map (\<lambda>j. [(''source_file'', PyStr p),
                                     (''content_type'', PyStr (resolve_content_type e p ct)),
                                     (''chunk_index'', PyInt (int j)),
                                     (''total_chunks'', PyInt (int (length chunks)))])
                            [0..<length chunks],
              ids = map (uuid4 e) [0..<length chunks]\<rparr>])"
    unfolding text_block_chunked [where chunker = chunker and content = content,
        OF assms(6,7,1)] assms(8)
    by simp
  from body_text_raised [OF assms(2-5) this assms(9)] show ?thesis .
qed

lemma body_binary_read:
  assumes "resolve_path e fp = Inr p"
    and "path_exists e p = Inr True"
    and "\<not> startswith (resolve_content_type e p ct) (str ''image/'')"
    and "RecursiveChunker e 1024 = Inr chunker"
    and "read_text e p = Inl x"
    and "is_UnicodeDecodeError x"
    and "read_bytes e p = Inl y"
  shows "ingest_body e client fp cn ct = (Inl y, [])"
  unfolding body_binary [OF assms(1-4) text_block_decode_error [OF assms(5)] assms(6)]
    binary_block_read_error [OF assms(7)]
  by simp

lemma body_binary_add:
  assumes "get_collection client cn = Inr u"
    and "resolve_path e fp = Inr p"
    and "path_exists e p = Inr True"
    and "\<not> startswith (resolve_content_type e p ct) (str ''image/'')"
    and "RecursiveChunker e 1024 = Inr chunker"
    and "read_text e p = Inl x"
    and "is_UnicodeDecodeError x"
    and "read_bytes e p = Inr bs"
    and "collection_add client
           \<lparr>collection = cn,
              documents = [binary_placeholder (resolve_content_type e p ct) (length bs)],
              metadatas = [[(''source_file'', PyStr p),
                            (''content_type'', PyStr (resolve_content_type e p ct)),
                            (''is_binary'', PyBool True)]],
              ids = [uuid4 e 0]\<rparr> = Inl y"
  shows "ingest_body e client fp cn ct =
           (Inl y, [\<lparr>collection = cn,
              documents = [binary_placeholder (resolve_content_type e p ct) (length bs)],
              metadatas = [[(''source_file'', PyStr p),
                            (''content_type'', PyStr (resolve_content_type e p ct)),
                            (''is_binary'', PyBool True)]],
              ids = [uuid4 e 0]\<rparr>])"
  unfolding body_binary [OF assms(2-5) text_block_decode_error [OF assms(6)] assms(7)]
    option.case binary_block_read [OF assms(8) assms(1)] assms(9)
  by simp

text \<open>
  Claim C2, as the code has it. A \<open>ValueError\<close> of the first \<open>get_collection\<close> gives the
  error dictionary that names the collection. Once this lookup has returned, no exception
  of class \<open>Exception\<close> leaves \<open>ingest_file\<close>: the exception that the body of the outer
  \<open>try\<close> raises gives the error dictionary \<open>Error reading file: \<close> with its message,
  together with the \<open>collection.add\<close> calls made before. That is so for an exception of
  the path resolution, of \<open>path.exists()\<close>, of reading an image, of the constructor of
  the chunker, of reading the text, of the chunker and of the store, except that a
  \<open>UnicodeDecodeError\<close> raised while the text is read, chunked and stored is not an
  error: it runs the binary handler, whose own exceptions give the error dictionary
  again. Nothing is said here of another exception of the first \<open>get_collection\<close>.
\<close>

theorem exceptions_caught:
  assumes "chroma_client e = Some client"
  shows
   "(\<forall>x. get_collection client collection_name = Inl x \<and> is_ValueError x \<longrightarrow>
        ingest_file e file_path collection_name content_type =
          (Returns [(''error'', PyStr (str ''Collection '' @ [39] @ collection_name @ [39]
                       @ str '' does not exist. Please create it first.''))], []))
    \<and> (\<forall>u. get_collection client collection_name = Inr u \<longrightarrow>
          (\<forall>x. fst (ingest_file e file_path collection_name content_type) = Raises x \<longrightarrow> \<not> is_Exception x)
        \<and> (\<forall>x w. ingest_body e client file_path collection_name content_type = (Inl x, w)
                  \<and> is_Exception x \<longrightarrow>
               ingest_file e file_path collection_name content_type = (Returns [(''error'', PyStr (str ''Error reading file: '' @ exn_str x))], w))
        \<and> (\<forall>x. resolve_path e file_path = Inl x \<and> is_Exception x \<longrightarrow>
               ingest_file e file_path collection_name content_type = (Returns [(''error'', PyStr (str ''Error reading file: '' @ exn_str x))], []))
        \<and> (\<forall>path. resolve_path e file_path = Inr path \<longrightarrow>
              (\<forall>x. path_exists e path = Inl x \<and> is_Exception x \<longrightarrow>
                 ingest_file e file_path collection_name content_type = (Returns [(''error'', PyStr (str ''Error reading file: '' @ exn_str x))], []))
            \<and> (path_exists e path = Inr True \<longrightarrow>
                  (\<forall>x. startswith (resolve_content_type e path content_type) (str ''image/'')
                       \<and> read_bytes e path = Inl x \<and> is_Exception x \<longrightarrow>
                     ingest_file e file_path collection_name content_type = (Returns [(''error'', PyStr (str ''Error reading file: '' @ exn_str x))], []))
                \<and> (\<not> startswith (resolve_content_type e path content_type) (str ''image/'') \<longrightarrow>
                      (\<forall>x. RecursiveChunker e 1024 = Inl x \<and> is_Exception x \<longrightarrow>
                         ingest_file e file_path collection_name content_type = (Returns [(''error'', PyStr (str ''Error reading file: '' @ exn_str x))], []))
                    \<and> (\<forall>chunker. RecursiveChunker e 1024 = Inr chunker \<longrightarrow>
                          (\<forall>x. read_text e path = Inl x \<and> is_Exception x
                               \<and> \<not> is_UnicodeDecodeError x \<longrightarrow>
                             ingest_file e file_path collection_name content_type = (Returns [(''error'', PyStr (str ''Error reading file: '' @ exn_str x))], []))
                        \<and> (\<forall>x y. read_text e path = Inl x \<and> is_UnicodeDecodeError x
                               \<and> read_bytes e path = Inl y \<and> is_Exception y \<longrightarrow>
                             ingest_file e file_path collection_name content_type = (Returns [(''error'', PyStr (str ''Error reading file: '' @ exn_str y))], []))
                        \<and> (\<forall>x binary_data y. read_text e path = Inl x \<and> is_UnicodeDecodeError x
                               \<and> read_bytes e path = Inr binary_data
                               \<and> collection_add client
                                     \<lparr>collection = collection_name,
                        documents = [binary_placeholder (resolve_content_type e path content_type) (length binary_data)],
                        metadatas = [[(''source_file'', PyStr path),
                                      (''content_type'', PyStr (resolve_content_type e path content_type)),
                                      (''is_binary'', PyBool True)]],
                        ids = [uuid4 e 0]\<rparr> = Inl y
                               \<and> is_Exception y \<longrightarrow>
                             ingest_file e file_path collection_name content_type =
                               (Returns [(''error'', PyStr (str ''Error reading file: '' @ exn_str y))],
                                [\<lparr>collection = collection_name,
                        documents = [binary_placeholder (resolve_content_type e path content_type) (length binary_data)],
                        metadatas = [[(''source_file'', PyStr path),
                                      (''content_type'', PyStr (resolve_content_type e path content_type)),
                                      (''is_binary'', PyBool True)]],
                        ids = [uuid4 e 0]\<rparr>]))
                        \<and> (\<forall>content. read_text e path = Inr content \<longrightarrow>
                              (\<forall>x. chunker content = Inl x \<and> is_Exception x
                                   \<and> \<not> is_UnicodeDecodeError x \<longrightarrow>
                                 ingest_file e file_path collection_name content_type = (Returns [(''error'', PyStr (str ''Error reading file: '' @ exn_str x))], []))
                            \<and> (\<forall>chunks x. chunker content = Inr chunks
                                   \<and> collection_add client
                                         \<lparr>collection = collection_name, documents = map chunk_text chunks,
                        metadatas = map (\<lambda>j. [(''source_file'', PyStr path),
                                      (''content_type'', PyStr (resolve_content_type e path content_type)),
                                      (''chunk_index'', PyInt (int j)),
                                      (''total_chunks'', PyInt (int (length chunks)))])
                                    [0..<length chunks],
                        ids = map (uuid4 e) [0..<length chunks]\<rparr> = Inl x
                                   \<and> is_Exception x \<and> \<not> is_UnicodeDecodeError x \<longrightarrow>
                                 ingest_file e file_path collection_name content_type =
                                   (Returns [(''error'', PyStr (str ''Error reading file: '' @ exn_str x))],
                                    [\<lparr>collection = collection_name, documents = map chunk_text chunks,
                        metadatas = map (\<lambda>j. [(''source_file'', PyStr path),
                                      (''content_type'', PyStr (resolve_content_type e path content_type)),
                                      (''chunk_index'', PyInt (int j)),
                                      (''total_chunks'', PyInt (int (length chunks)))])
                                    [0..<length chunks],
                        ids = map (uuid4 e) [0..<length chunks]\<rparr>]))))))))"
  apply (intro conjI allI impI)
  subgoal for x
    by (elim conjE) (rule caught_lookup [OF assms])
  subgoal for u x
    using ingest_file_raises [of e file_path collection_name content_type x] assms by auto
  subgoal for u x w
    by (elim conjE) (rule caught_body [OF assms])
  subgoal for u x
    by (elim conjE) (rule caught_body [OF assms _ body_resolve])
  subgoal for u path x
    by (elim conjE) (rule caught_body [OF assms _ body_exists])
  subgoal for u path x
    by (elim conjE) (rule caught_body [OF assms _ body_image_read])
  subgoal for u path x
    by (elim conjE) (rule caught_body [OF assms _ body_constructor])
  subgoal for u path chunker x
    by (elim conjE) (rule caught_body [OF assms _ body_text_read [where chunker = chunker]])
  subgoal for u path chunker x y
    by (elim conjE) (rule caught_body [OF assms _ body_binary_read [where chunker = chunker and x = x]])
  subgoal for u path chunker x binary_data y
    by (elim conjE)
      (rule caught_body [OF assms _ body_binary_add [where chunker = chunker and x = x]])
  subgoal for u path chunker content x
    by (elim conjE)
      (rule caught_body [OF assms _ body_chunker [where chunker = chunker and content = content]])
  subgoal for u path chunker content chunks x
    by (elim conjE)
      (rule caught_body [OF assms _ body_text_add [where chunker = chunker and content = content]])
  done


lemma sample_nope:
  "get_collection sample_client (str ''nope'')
     = Inl (Exn ValueError (str ''Collection does not exist''))"
  by (simp add: sample_client_def str_def)

lemma sample_empty_exists: "path_exists sample_env (str ''/d/'' @ str ''e.txt'') = Inr True"
  by (simp add: sample_env_def sample_files_def str_def)

lemma sample_empty_type:
  "resolve_content_type sample_env (str ''/d/'' @ str ''e.txt'') None = str ''text/plain''"
  by (simp add: resolve_content_type_def sample_env_def str_def)

lemma sample_empty_text: "read_text sample_env (str ''/d/'' @ str ''e.txt'') = Inr []"
  by (simp add: sample_env_def sample_files_def str_def)

lemma sample_refuses_empty:
  "collection_add sample_client
     \<lparr>collection = str ''docs'', documents = [], metadatas = [], ids = []\<rparr>
     = Inl (Exn ValueError (str ''Expected IDs to be a non-empty list''))"
  by (simp add: sample_client_def)

theorem exceptions_caught_witness:
  "chroma_client sample_env = Some sample_client
   \<and> get_collection sample_client (str ''nope'')
        = Inl (Exn ValueError (str ''Collection does not exist''))
   \<and> is_ValueError (Exn ValueError (str ''Collection does not exist''))
   \<and> ingest_file sample_env (str ''t.txt'') (str ''nope'') None =
        (Returns [(''error'', PyStr (str ''Collection '' @ [39] @ str ''nope'' @ [39]
                     @ str '' does not exist. Please create it first.''))], [])
   \<and> get_collection sample_client (str ''docs'') = Inr ()
   \<and> resolve_path sample_env (str ''e.txt'') = Inr (str ''/d/'' @ str ''e.txt'')
   \<and> path_exists sample_env (str ''/d/'' @ str ''e.txt'') = Inr True
   \<and> \<not> startswith (resolve_content_type sample_env (str ''/d/'' @ str ''e.txt'') None)
          (str ''image/'')
   \<and> read_text sample_env (str ''/d/'' @ str ''e.txt'') = Inr []
   \<and> collection_add sample_client
        \<lparr>collection = str ''docs'', documents = [], metadatas = [], ids = []\<rparr>
        = Inl (Exn ValueError (str ''Expected IDs to be a non-empty list''))
   \<and> is_Exception (Exn ValueError (str ''Expected IDs to be a non-empty list''))
   \<and> \<not> is_UnicodeDecodeError (Exn ValueError (str ''Expected IDs to be a non-empty list''))
   \<and> ingest_file sample_env (str ''e.txt'') (str ''docs'') None =
        (Returns [(''error'', PyStr (str ''Error reading file: ''
                     @ str ''Expected IDs to be a non-empty list''))],
         [\<lparr>collection = str ''docs'', documents = [], metadatas = [], ids = []\<rparr>])"
proof -
  have v: "is_ValueError (Exn ValueError (str ''Collection does not exist''))"
    by simp
  from exceptions_caught [OF sample_has_client, of "str ''nope''" "str ''t.txt''" None]
  have "\<forall>x. get_collection sample_client (str ''nope'') = Inl x \<and> is_ValueError x \<longrightarrow>
          ingest_file sample_env (str ''t.txt'') (str ''nope'') None =
            (Returns [(''error'', PyStr (str ''Collection '' @ [39] @ str ''nope'' @ [39]
                         @ str '' does not exist. Please create it first.''))], [])"
    by (rule conjunct1)
  with sample_nope v
  have a: "ingest_file sample_env (str ''t.txt'') (str ''nope'') None =
            (Returns [(''error'', PyStr (str ''Collection '' @ [39] @ str ''nope'' @ [39]
                         @ str '' does not exist. Please create it first.''))], [])"
    by blast
  have n: "\<not> startswith (resolve_content_type sample_env (str ''/d/'' @ str ''e.txt'') None)
             (str ''image/'')"
    by (simp add: sample_empty_type text_plain_not_image)
  have i: "is_Exception (Exn ValueError (str ''Expected IDs to be a non-empty list''))"
    and d: "\<not> is_UnicodeDecodeError (Exn ValueError (str ''Expected IDs to be a non-empty list''))"
    by simp_all
  have r: "collection_add sample_client
     \<lparr>collection = str ''docs'', documents = map chunk_text [],
        metadatas = map (\<lambda>j. [(''source_file'', PyStr (str ''/d/'' @ str ''e.txt'')),
                      (''content_type'',
                       PyStr (resolve_content_type sample_env (str ''/d/'' @ str ''e.txt'') None)),
                      (''chunk_index'', PyInt (int j)),
                      (''total_chunks'', PyInt (int (length ([] :: chunk list))))])
                    [0..<length ([] :: chunk list)],
        ids = map (uuid4 sample_env) [0..<length ([] :: chunk list)]\<rparr>
     = Inl (Exn ValueError (str ''Expected IDs to be a non-empty list''))"
    using sample_refuses_empty by simp
  from exceptions_caught [OF sample_has_client, of "str ''docs''" "str ''e.txt''" None]
    sample_has_docs sample_resolve [of "str ''e.txt''"] sample_empty_exists n sample_chunker
    sample_empty_text sample_chunker_empty r i d
  have "ingest_file sample_env (str ''e.txt'') (str ''docs'') None =
        (Returns [(''error'', PyStr (str ''Error reading file: ''
                     @ exn_str (Exn ValueError (str ''Expected IDs to be a non-empty list''))))],
         [\<lparr>collection = str ''docs'', documents = map chunk_text [],
        metadatas = map (\<lambda>j. [(''source_file'', PyStr (str ''/d/'' @ str ''e.txt'')),
                      (''content_type'',
                       PyStr (resolve_content_type sample_env (str ''/d/'' @ str ''e.txt'') None)),
                      (''chunk_index'', PyInt (int j)),
                      (''total_chunks'', PyInt (int (length ([] :: chunk list))))])
                    [0..<length ([] :: chunk list)],
        ids = map (uuid4 sample_env) [0..<length ([] :: chunk list)]\<rparr>])"
    by blast
  then have b: "ingest_file sample_env (str ''e.txt'') (str ''docs'') None =
        (Returns [(''error'', PyStr (str ''Error reading file: ''
                     @ str ''Expected IDs to be a non-empty list''))],
         [\<lparr>collection = str ''docs'', documents = [], metadatas = [], ids = []\<rparr>])"
    by simp
  from sample_has_client sample_nope v a sample_has_docs sample_resolve [of "str ''e.txt''"]
    sample_empty_exists n sample_empty_text sample_refuses_empty i d b
  show ?thesis
    by (intro conjI)
qed

lemma unreachable_ingest:
  "ingest_file unreachable_env (str ''t.txt'') (str ''docs'') None =
     (Raises (Exn OtherException (str ''Could not connect'')), [])"
  by (simp add: ingest_file_def unreachable_env_def unreachable_client_def)

lemma sample_binary_ingest:
  "fst (ingest_file sample_env (str ''b.bin'') (str ''docs'') None) =
     Returns [(''content'',
               PyStr (str ''<Binary data of type application/octet-stream, size 2 bytes>'')),
              (''content_type'', PyStr (str ''application/octet-stream'')),
              (''size'', PyInt 2), (''chunks_created'', PyInt 1)]"
  by (simp add: ingest_file_def ingest_body_def text_block_def binary_block_def sample_env_def
      sample_client_def sample_files_def resolve_content_type_def startswith_def summary_def
      truncated_content_def binary_placeholder_def Let_def str_def)

text \<open>
  The claim as it was stated fails twice: the exception of a store that cannot be reached
  leaves the call, and the \<open>UnicodeDecodeError\<close> that reading \<open>b.bin\<close> as text raises
  gives a summary, not an error dictionary.
\<close>

theorem exceptions_caught_counterexample:
  "ingest_file unreachable_env (str ''t.txt'') (str ''docs'') None =
     (Raises (Exn OtherException (str ''Could not connect'')), [])
   \<and> read_text sample_env (str ''/d/'' @ str ''b.bin'')
        = Inl (Exn UnicodeDecodeError (str ''invalid start byte''))
   \<and> fst (ingest_file sample_env (str ''b.bin'') (str ''docs'') None) =
        Returns [(''content'',
                  PyStr (str ''<Binary data of type application/octet-stream, size 2 bytes>'')),
                 (''content_type'', PyStr (str ''application/octet-stream'')),
                 (''size'', PyInt 2), (''chunks_created'', PyInt 1)]"
  using unreachable_ingest sample_bin_text sample_binary_ingest by (intro conjI)


section \<open>The size of the fragments\<close>

lemma raw_split_bound: "0 < m \<Longrightarrow> p \<in> set (raw_split m t) \<Longrightarrow> length p \<le> m"
proof (induction m t rule: raw_split.induct)
  case (1 m t)
  show ?case
  proof (cases "length t \<le> m")
    case True
    with "1.prems" show ?thesis
      by (simp add: raw_split.simps [of m t])
  next
    case False
    with "1.prems" have "p = take m t \<or> p \<in> set (raw_split m (drop m t))"
      by (simp add: raw_split.simps [of m t])
    then show ?thesis
    proof
      assume "p = take m t"
      then show ?thesis by simp
    next
      assume "p \<in> set (raw_split m (drop m t))"
      with "1.IH" "1.prems"(1) False show ?thesis by simp
    qed
  qed
qed

lemma resplit_bound: "0 < m \<Longrightarrow> p \<in> set (resplit m boundaries t) \<Longrightarrow> length p \<le> m"
proof (induction boundaries arbitrary: t)
  case Nil
  then have "p \<in> set (raw_split m t)"
    by (simp only: resplit.simps)
  with Nil.prems(1) show ?case
    by (rule raw_split_bound)
next
  case (Cons boundary finer)
  from Cons.prems(2) obtain piece where
    i: "piece \<in> set (boundary t)"
    and j: "p \<in> set (if length piece > m then resplit m finer piece else [piece])"
    by (auto simp only: resplit.simps set_concat set_map)
  show ?case
  proof (cases "length piece > m")
    case True
    with j have "p \<in> set (resplit m finer piece)"
      by (simp only: if_True)
    with Cons.prems(1) show ?thesis
      by (rule Cons.IH)
  next
    case False
    with j have "p = piece"
      by (simp only: if_False list.set insert_iff empty_iff simp_thms)
    with False show ?thesis
      by (simp only: not_less)
  qed
qed

lemma chunk_spec_bound:
  assumes "chunk_spec boundaries t m = Some fragments"
    and "f \<in> set fragments"
  shows "length f \<le> m"
proof (cases "m = 0")
  case True
  with assms(1) show ?thesis
    by (simp add: chunk_spec_def)
next
  case False
  then have m: "0 < m"
    by (simp only: neq0_conv)
  show ?thesis
  proof (cases "t = []")
    case True
    with False assms(1) have "fragments = []"
      by (simp add: chunk_spec_def)
    with assms(2) show ?thesis
      by (simp only: list.set empty_iff)
  next
    case nonempty: False
    with False assms(1) have "fragments = resplit m boundaries t"
      by (simp add: chunk_spec_def)
    with assms(2) have "f \<in> set (resplit m boundaries t)"
      by (simp only:)
    with m show ?thesis
      by (rule resplit_bound)
  qed
qed

text \<open>
  Claim C3, for the chunker of the specification. Every fragment that \<open>chunk_spec\<close> gives
  for the maximum size 1024 has at most 1024 characters, whatever the boundary functions
  are; and when the chunker of the pipeline returns these fragments for the text of the
  file, they are the documents of the first \<open>collection.add\<close> call, unchanged, so every
  document has at most 1024 characters. Lengths are counted in characters, as the
  \<open>size\<close> that the response reports for a text file is.
\<close>

theorem fragments_bounded:
  assumes "chroma_client e = Some client"
    and "get_collection client collection_name = Inr u"
    and "resolve_path e file_path = Inr path"
    and "path_exists e path = Inr True"
    and "\<not> startswith (resolve_content_type e path content_type) (str ''image/'')"
    and "RecursiveChunker e 1024 = Inr chunker"
    and "read_text e path = Inr content"
    and "chunk_spec boundaries content 1024 = Some fragments"
    and "chunker content = Inr (map Chunk fragments)"
  shows "(\<forall>f \<in> set fragments. length f \<le> 1024)
    \<and> (\<exists>call rest. snd (ingest_file e file_path collection_name content_type) = call # rest
          \<and> documents call = fragments
          \<and> (\<forall>d \<in> set (documents call). length d \<le> 1024))"
proof -
  have b: "\<forall>f \<in> set fragments. length f \<le> 1024"
    using chunk_spec_bound [OF assms(8)] by blast
  define call where
    "call = \<lparr>collection = collection_name, documents = map chunk_text (map Chunk fragments),
              metadatas = map (\<lambda>j. [(''source_file'', PyStr path),
                                     (''content_type'',
                                      PyStr (resolve_content_type e path content_type)),
                                     (''chunk_index'', PyInt (int j)),
                                     (''total_chunks'', PyInt (int (length (map Chunk fragments))))])
                            [0..<length (map Chunk fragments)],
              ids = map (uuid4 e) [0..<length (map Chunk fragments)]\<rparr>"
  from ingest_file_text [where chunker = chunker and content = content, OF assms(1-7) assms(9) call_def]
  obtain rest where r: "snd (ingest_file e file_path collection_name content_type) = call # rest"
    by blast
  have d: "documents call = fragments"
    by (simp add: call_def comp_def)
  with b have "\<forall>d \<in> set (documents call). length d \<le> 1024"
    by simp
  with r d b show ?thesis
    by blast
qed

theorem fragments_bounded_witness:
  "chroma_client sample_env = Some sample_client
   \<and> get_collection sample_client (str ''docs'') = Inr ()
   \<and> resolve_path sample_env (str ''l.txt'') = Inr (str ''/d/'' @ str ''l.txt'')
   \<and> path_exists sample_env (str ''/d/'' @ str ''l.txt'') = Inr True
   \<and> \<not> startswith (resolve_content_type sample_env (str ''/d/'' @ str ''l.txt'') None)
          (str ''image/'')
   \<and> read_text sample_env (str ''/d/'' @ str ''l.txt'') = Inr [97, 10, 98, 10, 99]
   \<and> chunk_spec sample_boundaries [97, 10, 98, 10, 99] 1024 = Some [[97], [98], [99]]
   \<and> list_all (\<lambda>f. length f \<le> 1024) [[97], [98], [99 :: nat]]
   \<and> (\<exists>call rest. snd (ingest_file sample_env (str ''l.txt'') (str ''docs'') None) = call # rest
          \<and> documents call = [[97], [98], [99]]
          \<and> (\<forall>d \<in> set (documents call). length d \<le> 1024))"
proof -
  have n: "\<not> startswith (resolve_content_type sample_env (str ''/d/'' @ str ''l.txt'') None)
             (str ''image/'')"
    by (simp add: sample_lines_type text_plain_not_image)
  have c: "(\<lambda>t. case chunk_spec sample_boundaries t 1024 of
                  None \<Rightarrow> Inl (Exn ValueError (str ''chunk_size must be positive''))
                | Some fs \<Rightarrow> Inr (map Chunk fs)) [97, 10, 98, 10, 99]
           = Inr (map Chunk [[97], [98], [99]])"
    by (simp add: sample_lines_chunks)
  note t = fragments_bounded [OF sample_has_client sample_has_docs sample_resolve
      sample_lines_exists n sample_chunker sample_lines_text sample_lines_chunks c]
  from t have "\<forall>f \<in> set [[97], [98], [99 :: nat]]. length f \<le> 1024"
    by (rule conjunct1)
  then have a: "list_all (\<lambda>f. length f \<le> 1024) [[97], [98], [99 :: nat]]"
    by (simp only: list_all_iff)
  from t have b: "\<exists>call rest. snd (ingest_file sample_env (str ''l.txt'') (str ''docs'') None) = call # rest
          \<and> documents call = [[97], [98], [99]]
          \<and> (\<forall>d \<in> set (documents call). length d \<le> 1024)"
    by (rule conjunct2)
  from a b n sample_has_client sample_has_docs sample_resolve [of "str ''l.txt''"]
    sample_lines_exists sample_lines_text sample_lines_chunks
  show ?thesis
    by (intro conjI)
qed

section \<open>The choice of the branch\<close>

lemma ingest_file_image:
  assumes "chroma_client e = Some client"
    and "get_collection client cn = Inr u"
    and "resolve_path e fp = Inr p"
    and "path_exists e p = Inr True"
    and "startswith (resolve_content_type e p ct) (str ''image/'')"
  shows "snd (ingest_file e fp cn ct) = []"
    and "read_bytes e p = Inr bs \<Longrightarrow>
           fst (ingest_file e fp cn ct) =
             Returns [(''content'', PyImage bs (split_last (resolve_content_type e p ct))),
                      (''content_type'', PyStr (resolve_content_type e p ct)),
                      (''size'', PyInt (int (length bs)))]"
  using assms startswith_nonempty [of "resolve_content_type e p ct"]
  by (auto simp: ingest_file_def ingest_body_def Let_def split: sum.splits)

lemma ingest_body_no_image:
  assumes "ingest_body e client fp cn ct = (Inr d, w)"
    and "resolve_path e fp = Inr p"
    and "\<not> startswith (resolve_content_type e p ct) (str ''image/'')"
  shows "map_of d ''content'' \<noteq> Some (PyImage b f)"
  using assms
  by (auto simp: ingest_body_def Let_def summary_def
      split: sum.splits if_splits prod.splits text_outcome.splits)

lemma override_resolved:
  assumes "startswith t (str ''image/'')"
  shows "resolve_content_type e p (Some t) = t"
  using assms startswith_nonempty [of t] by (simp add: resolve_content_type_def)

lemma file_text_done:
  assumes "chroma_client e = Some client"
    and "get_collection client cn = Inr u"
    and "resolve_path e fp = Inr p"
    and "path_exists e p = Inr True"
    and "\<not> startswith (resolve_content_type e p ct) (str ''image/'')"
    and "RecursiveChunker e 1024 = Inr chunker"
    and "text_block e client chunker p cn (resolve_content_type e p ct)
           = (TextDone content sz chunks, w)"
  shows "ingest_file e fp cn ct =
           (Returns [(''content'', PyStr (truncated_content content)),
                     (''content_type'', PyStr (resolve_content_type e p ct)),
                     (''size'', PyInt (int sz)),
                     (''chunks_created'', PyInt (int (length chunks)))], w)"
  using assms(1,2) body_text_done [OF assms(3-7)]
  by (simp add: ingest_file_def summary_def)

lemma file_text_raised:
  assumes "chroma_client e = Some client"
    and "get_collection client cn = Inr u"
    and "resolve_path e fp = Inr p"
    and "path_exists e p = Inr True"
    and "\<not> startswith (resolve_content_type e p ct) (str ''image/'')"
    and "RecursiveChunker e 1024 = Inr chunker"
    and "text_block e client chunker p cn (resolve_content_type e p ct) = (TextRaised x bound, w)"
    and "\<not> is_UnicodeDecodeError x"
  shows "snd (ingest_file e fp cn ct) = w"
  using assms(1,2) body_text_raised [OF assms(3-8)]
  by (simp add: ingest_file_def)

lemma file_binary_writes:
  assumes "chroma_client e = Some client"
    and "get_collection client cn = Inr u"
    and "resolve_path e fp = Inr p"
    and "path_exists e p = Inr True"
    and "\<not> startswith (resolve_content_type e p ct) (str ''image/'')"
    and "RecursiveChunker e 1024 = Inr chunker"
    and "text_block e client chunker p cn (resolve_content_type e p ct) = (TextRaised x bound, w)"
    and "is_UnicodeDecodeError x"
  shows "snd (ingest_file e fp cn ct) =
           w @ snd (binary_block e client p cn (resolve_content_type e p ct)
                      (case bound of None \<Rightarrow> 0 | Some cs \<Rightarrow> length cs))"
proof -
  obtain r w' where b: "binary_block e client p cn (resolve_content_type e p ct)
                      (case bound of None \<Rightarrow> 0 | Some cs \<Rightarrow> length cs) = (r, w')"
    by (cases "binary_block e client p cn (resolve_content_type e p ct)
                      (case bound of None \<Rightarrow> 0 | Some cs \<Rightarrow> length cs)")
  show ?thesis
  proof (cases r)
    case (Inl y)
    with assms(1,2) body_binary [OF assms(3-8)] b show ?thesis
      by (simp add: ingest_file_def)
  next
    case (Inr cs)
    obtain content sz where "cs = (content, sz)"
      by (cases cs)
    with Inr assms(1,2) body_binary [OF assms(3-8)] b show ?thesis
      by (simp add: ingest_file_def)
  qed
qed

lemma file_binary_handler:
  assumes "chroma_client e = Some client"
    and "get_collection client cn = Inr u"
    and "resolve_path e fp = Inr p"
    and "path_exists e p = Inr True"
    and "\<not> startswith (resolve_content_type e p ct) (str ''image/'')"
    and "RecursiveChunker e 1024 = Inr chunker"
    and "text_block e client chunker p cn (resolve_content_type e p ct) = (TextRaised x bound, w)"
    and "is_UnicodeDecodeError x"
    and "read_bytes e p = Inr bs"
  shows "snd (ingest_file e fp cn ct) =
           w @ [\<lparr>collection = cn,
                  documents = [binary_placeholder (resolve_content_type e p ct) (length bs)],
                  metadatas = [[(''source_file'', PyStr p),
                                (''content_type'', PyStr (resolve_content_type e p ct)),
                                (''is_binary'', PyBool True)]],
                  ids = [uuid4 e (case bound of None \<Rightarrow> 0 | Some cs \<Rightarrow> length cs)]\<rparr>]"
    and "collection_add client
           \<lparr>collection = cn,
              documents = [binary_placeholder (resolve_content_type e p ct) (length bs)],
              metadatas = [[(''source_file'', PyStr p),
                            (''content_type'', PyStr (resolve_content_type e p ct)),
                            (''is_binary'', PyBool True)]],
              ids = [uuid4 e (case bound of None \<Rightarrow> 0 | Some cs \<Rightarrow> length cs)]\<rparr> = Inr ()
         \<Longrightarrow> fst (ingest_file e fp cn ct) =
               Returns [(''content'',
                         PyStr (truncated_content
                                  (binary_placeholder (resolve_content_type e p ct) (length bs)))),
                        (''content_type'', PyStr (resolve_content_type e p ct)),
                        (''size'', PyInt (int (length bs))),
                        (''chunks_created'',
                         PyInt (int (case bound of None \<Rightarrow> 1 | Some cs \<Rightarrow> length cs)))]"
proof -
  note b = binary_block_read [where ct = "resolve_content_type e p ct"
      and k = "case bound of None \<Rightarrow> 0 | Some cs \<Rightarrow> length cs", OF assms(9) assms(2)]
  show "snd (ingest_file e fp cn ct) =
           w @ [\<lparr>collection = cn,
                  documents = [binary_placeholder (resolve_content_type e p ct) (length bs)],
                  metadatas = [[(''source_file'', PyStr p),
                                (''content_type'', PyStr (resolve_content_type e p ct)),
                                (''is_binary'', PyBool True)]],
                  ids = [uuid4 e (case bound of None \<Rightarrow> 0 | Some cs \<Rightarrow> length cs)]\<rparr>]"
    unfolding file_binary_writes [OF assms(1-8)] b
    by (simp split: sum.splits)
  assume "collection_add client
           \<lparr>collection = cn,
              documents = [binary_placeholder (resolve_content_type e p ct) (length bs)],
              metadatas = [[(''source_file'', PyStr p),
                            (''content_type'', PyStr (resolve_content_type e p ct)),
                            (''is_binary'', PyBool True)]],
              ids = [uuid4 e (case bound of None \<Rightarrow> 0 | Some cs \<Rightarrow> length cs)]\<rparr> = Inr ()"
  with assms(1,2) body_binary [OF assms(3-8)] b
  show "fst (ingest_file e fp cn ct) =
               Returns [(''content'',
                         PyStr (truncated_content
                                  (binary_placeholder (resolve_content_type e p ct) (length bs)))),
                        (''content_type'', PyStr (resolve_content_type e p ct)),
                        (''size'', PyInt (int (length bs))),
                        (''chunks_created'',
                         PyInt (int (case bound of None \<Rightarrow> 1 | Some cs \<Rightarrow> length cs)))]"
    by (simp add: ingest_file_def summary_def)
qed


lemma file_text_stored:
  assumes "chroma_client e = Some client"
    and "get_collection client cn = Inr u"
    and "resolve_path e fp = Inr p"
    and "path_exists e p = Inr True"
    and "\<not> startswith (resolve_content_type e p ct) (str ''image/'')"
    and "RecursiveChunker e 1024 = Inr chunker"
    and "read_text e p = Inr content"
    and "chunker content = Inr chunks"
    and "collection_add client
           \<lparr>collection = cn, documents = map chunk_text chunks,
              metadatas = map (\<lambda>j. [(''source_file'', PyStr p),
                                     (''content_type'', PyStr (resolve_content_type e p ct)),
                                     (''chunk_index'', PyInt (int j)),
                                     (''total_chunks'', PyInt (int (length chunks)))])
                            [0..<length chunks],
              ids = map (uuid4 e) [0..<length chunks]\<rparr> = Inr ()"
  shows "ingest_file e fp cn ct =
           (Returns [(''content'', PyStr (truncated_content content)),
                     (''content_type'', PyStr (resolve_content_type e p ct)),
                     (''size'', PyInt (int (length content))),
                     (''chunks_created'', PyInt (int (length chunks)))],
            [\<lparr>collection = cn, documents = map chunk_text chunks,
              metadatas = map (\<lambda>j. [(''source_file'', PyStr p),
                                     (''content_type'', PyStr (resolve_content_type e p ct)),
                                     (''chunk_index'', PyInt (int j)),
                                     (''total_chunks'', PyInt (int (length chunks)))])
                            [0..<length chunks],
              ids = map (uuid4 e) [0..<length chunks]\<rparr>])"
proof -
  have "text_block e client chunker p cn (resolve_content_type e p ct) =
          (TextDone content (length content) chunks,
           [\<lparr>collection = cn, documents = map chunk_text chunks,
              metadatas = map (\<lambda>j. [(''source_file'', PyStr p),
                                     (''content_type'', PyStr (resolve_content_type e p ct)),
                                     (''chunk_index'', PyInt (int j)),
                                     (''total_chunks'', PyInt (int (length chunks)))])
                            [0..<length chunks],
              ids = map (uuid4 e) [0..<length chunks]\<rparr>])"
    unfolding text_block_chunked [where chunker = chunker and content = content,
        OF assms(7,8,2)] assms(9)
    by simp
  from file_text_done [OF assms(1-6) this] show ?thesis .
qed

lemma file_undecodable:
  assumes "chroma_client e = Some client"
    and "get_collection client cn = Inr u"
    and "resolve_path e fp = Inr p"
    and "path_exists e p = Inr True"
    and "\<not> startswith (resolve_content_type e p ct) (str ''image/'')"
    and "RecursiveChunker e 1024 = Inr chunker"
    and "read_text e p = Inl x"
    and "is_UnicodeDecodeError x"
    and "read_bytes e p = Inr bs"
  shows "snd (ingest_file e fp cn ct) =
           [\<lparr>collection = cn,
              documents = [binary_placeholder (resolve_content_type e p ct) (length bs)],
              metadatas = [[(''source_file'', PyStr p),
                            (''content_type'', PyStr (resolve_content_type e p ct)),
                            (''is_binary'', PyBool True)]],
              ids = [uuid4 e 0]\<rparr>]"
    and "collection_add client
           \<lparr>collection = cn,
              documents = [binary_placeholder (resolve_content_type e p ct) (length bs)],
              metadatas = [[(''source_file'', PyStr p),
                            (''content_type'', PyStr (resolve_content_type e p ct)),
                            (''is_binary'', PyBool True)]],
              ids = [uuid4 e 0]\<rparr> = Inr ()
         \<Longrightarrow> fst (ingest_file e fp cn ct) =
               Returns [(''content'',
                      PyStr (truncated_content (binary_placeholder (resolve_content_type e p ct) (length bs)))),
                     (''content_type'', PyStr (resolve_content_type e p ct)),
                     (''size'', PyInt (int (length bs))),
                     (''chunks_created'', PyInt 1)]"
  using file_binary_handler [OF assms(1-6) text_block_decode_error [OF assms(7)] assms(8,9)]
  by simp_all

lemma file_store_decode_error:
  assumes "chroma_client e = Some client"
    and "get_collection client cn = Inr u"
    and "resolve_path e fp = Inr p"
    and "path_exists e p = Inr True"
    and "\<not> startswith (resolve_content_type e p ct) (str ''image/'')"
    and "RecursiveChunker e 1024 = Inr chunker"
    and "read_text e p = Inr content"
    and "chunker content = Inr chunks"
    and "collection_add client
           \<lparr>collection = cn, documents = map chunk_text chunks,
              metadatas = map (\<lambda>j. [(''source_file'', PyStr p),
                                     (''content_type'', PyStr (resolve_content_type e p ct)),
                                     (''chunk_index'', PyInt (int j)),
                                     (''total_chunks'', PyInt (int (length chunks)))])
                            [0..<length chunks],
              ids = map (uuid4 e) [0..<length chunks]\<rparr> = Inl x"
    and "is_UnicodeDecodeError x"
    and "read_bytes e p = Inr bs"
  shows "snd (ingest_file e fp cn ct) =
           [\<lparr>collection = cn, documents = map chunk_text chunks,
              metadatas = map (\<lambda>j. [(''source_file'', PyStr p),
                                     (''content_type'', PyStr (resolve_content_type e p ct)),
                                     (''chunk_index'', PyInt (int j)),
                                     (''total_chunks'', PyInt (int (length chunks)))])
                            [0..<length chunks],
              ids = map (uuid4 e) [0..<length chunks]\<rparr>,
            \<lparr>collection = cn,
              documents = [binary_placeholder (resolve_content_type e p ct) (length bs)],
              metadatas = [[(''source_file'', PyStr p),
                            (''content_type'', PyStr (resolve_content_type e p ct)),
                            (''is_binary'', PyBool True)]],
              ids = [uuid4 e (length chunks)]\<rparr>]"
    and "collection_add client
           \<lparr>collection = cn,
              documents = [binary_placeholder (resolve_content_type e p ct) (length bs)],
              metadatas = [[(''source_file'', PyStr p),
                            (''content_type'', PyStr (resolve_content_type e p ct)),
                            (''is_binary'', PyBool True)]],
              ids = [uuid4 e (length chunks)]\<rparr> = Inr ()
         \<Longrightarrow> fst (ingest_file e fp cn ct) =
               Returns [(''content'',
                      PyStr (truncated_content (binary_placeholder (resolve_content_type e p ct) (length bs)))),
                     (''content_type'', PyStr (resolve_content_type e p ct)),
                     (''size'', PyInt (int (length bs))),
                     (''chunks_created'', PyInt (int (length chunks)))]"
proof -
  have t: "text_block e client chunker p cn (resolve_content_type e p ct) =
          (TextRaised x (Some chunks),
           [\<lparr>collection = cn, documents = map chunk_text chunks,
              metadatas = map (\<lambda>j. [(''source_file'', PyStr p),
                                     (''content_type'', PyStr (resolve_content_type e p ct)),
                                     (''chunk_index'', PyInt (int j)),
                                     (''total_chunks'', PyInt (int (length chunks)))])
                            [0..<length chunks],
              ids = map (uuid4 e) [0..<length chunks]\<rparr>])"
    unfolding text_block_chunked [where chunker = chunker and content = content,
        OF assms(7,8,2)] assms(9)
    by simp
  note h = file_binary_handler [OF assms(1-6) t assms(10,11)]
  from h(1) show "snd (ingest_file e fp cn ct) =
           [\<lparr>collection = cn, documents = map chunk_text chunks,
              metadatas = map (\<lambda>j. [(''source_file'', PyStr p),
                                     (''content_type'', PyStr (resolve_content_type e p ct)),
                                     (''chunk_index'', PyInt (int j)),
                                     (''total_chunks'', PyInt (int (length chunks)))])
                            [0..<length chunks],
              ids = map (uuid4 e) [0..<length chunks]\<rparr>,
            \<lparr>collection = cn,
              documents = [binary_placeholder (resolve_content_type e p ct) (length bs)],
              metadatas = [[(''source_file'', PyStr p),
                            (''content_type'', PyStr (resolve_content_type e p ct)),
                            (''is_binary'', PyBool True)]],
              ids = [uuid4 e (length chunks)]\<rparr>]"
    by simp
  assume "collection_add client
           \<lparr>collection = cn,
              documents = [binary_placeholder (resolve_content_type e p ct) (length bs)],
              metadatas = [[(''source_file'', PyStr p),
                            (''content_type'', PyStr (resolve_content_type e p ct)),
                            (''is_binary'', PyBool True)]],
              ids = [uuid4 e (length chunks)]\<rparr> = Inr ()"
  with h(2) show "fst (ingest_file e fp cn ct) =
               Returns [(''content'',
                      PyStr (truncated_content (binary_placeholder (resolve_content_type e p ct) (length bs)))),
                     (''content_type'', PyStr (resolve_content_type e p ct)),
                     (''size'', PyInt (int (length bs))),
                     (''chunks_created'', PyInt (int (length chunks)))]"
    by simp
qed


lemma file_no_image:
  assumes "resolve_path e fp = Inr p"
    and "\<not> startswith (resolve_content_type e p ct) (str ''image/'')"
    and "fst (ingest_file e fp cn ct) = Returns d"
  shows "map_of d ''content'' \<noteq> Some (PyImage b f)"
proof (cases "\<exists>m. d = [(''error'', PyStr m)]")
  case True
  then show ?thesis by auto
next
  case False
  from ingest_file_returns [OF assms(3) False] obtain client where
    "ingest_body e client fp cn ct = (Inr d, snd (ingest_file e fp cn ct))"
    by blast
  from ingest_body_no_image [OF this assms(1,2)] show ?thesis .
qed

text \<open>
  Claim C10, as the code has it. Past the checks of the collection and of the path,
  whether the image branch is taken depends on the resolved content type only, which is
  fixed before the file is read: when it starts with \<open>image/\<close> no \<open>collection.add\<close> is
  called and the bytes of a readable file are returned inline, whatever they are; when it
  does not, no returned dictionary holds an image. An override that starts with \<open>image/\<close>
  is the resolved type. For a type that is no image, the content type does not choose
  between text and binary: the binary handler runs exactly when the inner \<open>try\<close>, which
  reads the text, chunks it and stores the chunks, raises a \<open>UnicodeDecodeError\<close>. A text
  that is read, chunked and stored gives the text summary; a file that does not decode
  gives the one placeholder call and, when the store accepts it, \<open>chunks_created = 1\<close>;
  and a \<open>UnicodeDecodeError\<close> of the store after a successful read runs the binary
  handler too, after the text call, and reports the number of chunks.
\<close>

theorem image_branch_by_type:
  assumes "chroma_client e = Some client"
    and "get_collection client collection_name = Inr u"
    and "resolve_path e file_path = Inr path"
    and "path_exists e path = Inr True"
  shows
   "(startswith (resolve_content_type e path content_type) (str ''image/'') \<longrightarrow>
        snd (ingest_file e file_path collection_name content_type) = []
        \<and> (\<forall>binary_data. read_bytes e path = Inr binary_data \<longrightarrow>
              fst (ingest_file e file_path collection_name content_type) =
                Returns [(''content'',
                          PyImage binary_data (split_last (resolve_content_type e path content_type))),
                         (''content_type'', PyStr (resolve_content_type e path content_type)),
                         (''size'', PyInt (int (length binary_data)))]))
    \<and> (\<not> startswith (resolve_content_type e path content_type) (str ''image/'') \<longrightarrow>
          (\<forall>d b f. fst (ingest_file e file_path collection_name content_type) = Returns d \<longrightarrow>
             map_of d ''content'' \<noteq> Some (PyImage b f)))
    \<and> (\<forall>t. content_type = Some t \<and> startswith t (str ''image/'') \<longrightarrow>
          resolve_content_type e path content_type = t)
    \<and> (\<not> startswith (resolve_content_type e path content_type) (str ''image/'') \<longrightarrow>
          (\<forall>chunker. RecursiveChunker e 1024 = Inr chunker \<longrightarrow>
             (\<forall>content sz chunks w.
                 text_block e client chunker path collection_name (resolve_content_type e path content_type)
                   = (TextDone content sz chunks, w) \<longrightarrow>
                 ingest_file e file_path collection_name content_type =
                   (Returns [(''content'', PyStr (truncated_content content)),
                        (''content_type'', PyStr (resolve_content_type e path content_type)),
                        (''size'', PyInt (int sz)),
                        (''chunks_created'', PyInt (int (length chunks)))], w))
           \<and> (\<forall>x bound w.
                 text_block e client chunker path collection_name (resolve_content_type e path content_type)
                   = (TextRaised x bound, w) \<and> is_UnicodeDecodeError x \<longrightarrow>
                 snd (ingest_file e file_path collection_name content_type) =
                   w @ snd (binary_block e client path collection_name (resolve_content_type e path content_type)
                              (case bound of None \<Rightarrow> 0 | Some cs \<Rightarrow> length cs)))
           \<and> (\<forall>x bound w.
                 text_block e client chunker path collection_name (resolve_content_type e path content_type)
                   = (TextRaised x bound, w) \<and> \<not> is_UnicodeDecodeError x \<longrightarrow>
                 snd (ingest_file e file_path collection_name content_type) = w)
           \<and> (\<forall>content chunks.
                 read_text e path = Inr content \<and> chunker content = Inr chunks
                 \<and> collection_add client
                       \<lparr>collection = collection_name, documents = map chunk_text chunks,
                 metadatas = map (\<lambda>j. [(''source_file'', PyStr path),
                                        (''content_type'', PyStr (resolve_content_type e path content_type)),
                                        (''chunk_index'', PyInt (int j)),
                                        (''total_chunks'', PyInt (int (length chunks)))])
                               [0..<length chunks],
                 ids = map (uuid4 e) [0..<length chunks]\<rparr> = Inr () \<longrightarrow>
                 ingest_file e file_path collection_name content_type =
                   (Returns [(''content'', PyStr (truncated_content content)),
                        (''content_type'', PyStr (resolve_content_type e path content_type)),
                        (''size'', PyInt (int (length content))),
                        (''chunks_created'', PyInt (int (length chunks)))],
                    [\<lparr>collection = collection_name, documents = map chunk_text chunks,
                 metadatas = map (\<lambda>j. [(''source_file'', PyStr path),
                                        (''content_type'', PyStr (resolve_content_type e path content_type)),
                                        (''chunk_index'', PyInt (int j)),
                                        (''total_chunks'', PyInt (int (length chunks)))])
                               [0..<length chunks],
                 ids = map (uuid4 e) [0..<length chunks]\<rparr>]))
           \<and> (\<forall>x binary_data.
                 read_text e path = Inl x \<and> is_UnicodeDecodeError x
                 \<and> read_bytes e path = Inr binary_data \<longrightarrow>
                 snd (ingest_file e file_path collection_name content_type) =
                   [\<lparr>collection = collection_name,
                 documents = [binary_placeholder (resolve_content_type e path content_type) (length binary_data)],
                 metadatas = [[(''source_file'', PyStr path),
                               (''content_type'', PyStr (resolve_content_type e path content_type)),
                               (''is_binary'', PyBool True)]],
                 ids = [uuid4 e 0]\<rparr>]
                 \<and> (collection_add client
                       \<lparr>collection = collection_name,
                 documents = [binary_placeholder (resolve_content_type e path content_type) (length binary_data)],
                 metadatas = [[(''source_file'', PyStr path),
                               (''content_type'', PyStr (resolve_content_type e path content_type)),
                               (''is_binary'', PyBool True)]],
                 ids = [uuid4 e 0]\<rparr> = Inr () \<longrightarrow>
                     fst (ingest_file e file_path collection_name content_type) =
                       Returns [(''content'',
                         PyStr (truncated_content
                                  (binary_placeholder (resolve_content_type e path content_type) (length binary_data)))),
                        (''content_type'', PyStr (resolve_content_type e path content_type)),
                        (''size'', PyInt (int (length binary_data))),
                        (''chunks_created'', PyInt 1)]))
           \<and> (\<forall>content chunks x binary_data.
                 read_text e path = Inr content \<and> chunker content = Inr chunks
                 \<and> collection_add client
                       \<lparr>collection = collection_name, documents = map chunk_text chunks,
                 metadatas = map (\<lambda>j. [(''source_file'', PyStr path),
                                        (''content_type'', PyStr (resolve_content_type e path content_type)),
                                        (''chunk_index'', PyInt (int j)),
                                        (''total_chunks'', PyInt (int (length chunks)))])
                               [0..<length chunks],
                 ids = map (uuid4 e) [0..<length chunks]\<rparr> = Inl x
                 \<and> is_UnicodeDecodeError x \<and> read_bytes e path = Inr binary_data \<longrightarrow>
                 snd (ingest_file e file_path collection_name content_type) =
                   [\<lparr>collection = collection_name, documents = map chunk_text chunks,
                 metadatas = map (\<lambda>j. [(''source_file'', PyStr path),
                                        (''content_type'', PyStr (resolve_content_type e path content_type)),
                                        (''chunk_index'', PyInt (int j)),
                                        (''total_chunks'', PyInt (int (length chunks)))])
                               [0..<length chunks],
                 ids = map (uuid4 e) [0..<length chunks]\<rparr>,
                    \<lparr>collection = collection_name,
                 documents = [binary_placeholder (resolve_content_type e path content_type) (length binary_data)],
                 metadatas = [[(''source_file'', PyStr path),
                               (''content_type'', PyStr (resolve_content_type e path content_type)),
                               (''is_binary'', PyBool True)]],
                 ids = [uuid4 e (length chunks)]\<rparr>]
                 \<and> (collection_add client
                       \<lparr>collection = collection_name,
                 documents = [binary_placeholder (resolve_content_type e path content_type) (length binary_data)],
                 metadatas = [[(''source_file'', PyStr path),
                               (''content_type'', PyStr (resolve_content_type e path content_type)),
                               (''is_binary'', PyBool True)]],
                 ids = [uuid4 e (length chunks)]\<rparr> = Inr () \<longrightarrow>
                     fst (ingest_file e file_path collection_name content_type) =
                       Returns [(''content'',
                         PyStr (truncated_content
                                  (binary_placeholder (resolve_content_type e path content_type) (length binary_data)))),
                        (''content_type'', PyStr (resolve_content_type e path content_type)),
                        (''size'', PyInt (int (length binary_data))),
                        (''chunks_created'', PyInt (int (length chunks)))]))))"
  apply (intro conjI allI impI)
  subgoal
    by (rule ingest_file_image(1) [OF assms])
  subgoal for binary_data
    by (rule ingest_file_image(2) [OF assms])
  subgoal for d b f
    by (rule file_no_image [OF assms(3)])
  subgoal for t
    by (elim conjE) (simp add: override_resolved)
  subgoal for chunker content sz chunks w
    by (rule file_text_done [OF assms, where chunker = chunker])
  subgoal for chunker x bound w
    by (elim conjE) (rule file_binary_writes [OF assms, where chunker = chunker and x = x])
  subgoal for chunker x bound w
    by (elim conjE) (rule file_text_raised [OF assms, where chunker = chunker and x = x])
  subgoal for chunker content chunks
    by (elim conjE)
      (rule file_text_stored [OF assms, where chunker = chunker and content = content])
  subgoal for chunker x binary_data
    by (elim conjE) (rule file_undecodable(1) [OF assms, where chunker = chunker and x = x])
  subgoal for chunker x binary_data
    by (elim conjE) (rule file_undecodable(2) [OF assms, where chunker = chunker and x = x])
  subgoal for chunker content chunks x binary_data
    by (elim conjE)
      (rule file_store_decode_error(1) [OF assms, where chunker = chunker and content = content
          and x = x])
  subgoal for chunker content chunks x binary_data
    by (elim conjE)
      (rule file_store_decode_error(2) [OF assms, where chunker = chunker and content = content
          and x = x])
  done


lemma sample_text_exists: "path_exists sample_env (str ''/d/'' @ str ''t.txt'') = Inr True"
  by (simp add: sample_env_def sample_files_def str_def)

lemma sample_text_bytes:
  "read_bytes sample_env (str ''/d/'' @ str ''t.txt'') = Inr [72, 105, 46, 32, 89, 111]"
  by (simp add: sample_env_def sample_files_def str_def)

lemma sample_text_type:
  "resolve_content_type sample_env (str ''/d/'' @ str ''t.txt'') None = str ''text/plain''"
  by (simp add: resolve_content_type_def sample_env_def str_def)

lemma image_x: "startswith (str ''image/x'') (str ''image/'')"
  by (simp add: startswith_def str_def)

lemma split_last_image_x: "split_last (str ''image/x'') = str ''x''"
  by (simp add: split_last_def str_def)

theorem image_branch_by_type_witness:
  "chroma_client sample_env = Some sample_client
   \<and> get_collection sample_client (str ''docs'') = Inr ()
   \<and> resolve_path sample_env (str ''t.txt'') = Inr (str ''/d/'' @ str ''t.txt'')
   \<and> path_exists sample_env (str ''/d/'' @ str ''t.txt'') = Inr True
   \<and> startswith (str ''image/x'') (str ''image/'')
   \<and> resolve_content_type sample_env (str ''/d/'' @ str ''t.txt'') (Some (str ''image/x''))
        = str ''image/x''
   \<and> read_bytes sample_env (str ''/d/'' @ str ''t.txt'') = Inr [72, 105, 46, 32, 89, 111]
   \<and> snd (ingest_file sample_env (str ''t.txt'') (str ''docs'') (Some (str ''image/x''))) = []
   \<and> fst (ingest_file sample_env (str ''t.txt'') (str ''docs'') (Some (str ''image/x''))) =
        Returns [(''content'', PyImage [72, 105, 46, 32, 89, 111] (str ''x'')),
                 (''content_type'', PyStr (str ''image/x'')),
                 (''size'', PyInt 6)]
   \<and> \<not> startswith (resolve_content_type sample_env (str ''/d/'' @ str ''t.txt'') None)
          (str ''image/'')
   \<and> fst (ingest_file sample_env (str ''t.txt'') (str ''docs'') None) =
        Returns [(''content'', PyStr (str ''Hi. Yo'')), (''content_type'', PyStr (str ''text/plain'')),
                 (''size'', PyInt 6), (''chunks_created'', PyInt 1)]
   \<and> (\<forall>b f. map_of [(''content'', PyStr (str ''Hi. Yo'')),
                      (''content_type'', PyStr (str ''text/plain'')),
                      (''size'', PyInt 6), (''chunks_created'', PyInt 1)] ''content''
              \<noteq> Some (PyImage b f))
   \<and> resolve_path sample_env (str ''b.bin'') = Inr (str ''/d/'' @ str ''b.bin'')
   \<and> path_exists sample_env (str ''/d/'' @ str ''b.bin'') = Inr True
   \<and> \<not> startswith (resolve_content_type sample_env (str ''/d/'' @ str ''b.bin'') None)
          (str ''image/'')
   \<and> read_text sample_env (str ''/d/'' @ str ''b.bin'')
        = Inl (Exn UnicodeDecodeError (str ''invalid start byte''))
   \<and> is_UnicodeDecodeError (Exn UnicodeDecodeError (str ''invalid start byte''))
   \<and> read_bytes sample_env (str ''/d/'' @ str ''b.bin'') = Inr [255, 254]
   \<and> snd (ingest_file sample_env (str ''b.bin'') (str ''docs'') None) =
        [\<lparr>collection = str ''docs'',
           documents = [str ''<Binary data of type application/octet-stream, size 2 bytes>''],
           metadatas = [[(''source_file'', PyStr (str ''/d/b.bin'')),
                         (''content_type'', PyStr (str ''application/octet-stream'')),
                         (''is_binary'', PyBool True)]],
           ids = [str ''id0'']\<rparr>]"
proof -
  note t = image_branch_by_type [OF sample_has_client sample_has_docs sample_resolve
      sample_text_exists, of "Some (str ''image/x'')"]
  have o: "resolve_content_type sample_env (str ''/d/'' @ str ''t.txt'')
      (Some (str ''image/x'')) = str ''image/x''"
    using t [THEN conjunct2, THEN conjunct2, THEN conjunct1, THEN spec, THEN mp,
        OF conjI [OF refl image_x]] .
  have i: "startswith (resolve_content_type sample_env (str ''/d/'' @ str ''t.txt'')
      (Some (str ''image/x''))) (str ''image/'')"
    unfolding o by (rule image_x)
  note a = t [THEN conjunct1, THEN mp, OF i]
  have w: "snd (ingest_file sample_env (str ''t.txt'') (str ''docs'')
      (Some (str ''image/x''))) = []"
    using a by (rule conjunct1)
  have r: "fst (ingest_file sample_env (str ''t.txt'') (str ''docs'')
      (Some (str ''image/x''))) =
        Returns [(''content'', PyImage [72, 105, 46, 32, 89, 111] (str ''x'')),
                 (''content_type'', PyStr (str ''image/x'')),
                 (''size'', PyInt 6)]"
    using a [THEN conjunct2, THEN spec, THEN mp, OF sample_text_bytes]
    unfolding o split_last_image_x by simp
  note t2 = image_branch_by_type [OF sample_has_client sample_has_docs sample_resolve
      sample_text_exists, of None]
  have n: "\<not> startswith (resolve_content_type sample_env (str ''/d/'' @ str ''t.txt'') None)
          (str ''image/'')"
    by (simp add: sample_text_type text_plain_not_image)
  have f: "fst (ingest_file sample_env (str ''t.txt'') (str ''docs'') None) =
        Returns [(''content'', PyStr (str ''Hi. Yo'')), (''content_type'', PyStr (str ''text/plain'')),
                 (''size'', PyInt 6), (''chunks_created'', PyInt 1)]"
    by (simp add: sample_text_ingest)
  have b: "\<forall>b f. map_of [(''content'', PyStr (str ''Hi. Yo'')),
                      (''content_type'', PyStr (str ''text/plain'')),
                      (''size'', PyInt 6), (''chunks_created'', PyInt 1)] ''content''
              \<noteq> Some (PyImage b f)"
    using t2 [THEN conjunct2, THEN conjunct1, THEN mp, OF n] f by blast
  note t3 = image_branch_by_type [OF sample_has_client sample_has_docs sample_resolve
      sample_bin_exists, of None]
  have n3: "\<not> startswith (resolve_content_type sample_env (str ''/d/'' @ str ''b.bin'') None)
          (str ''image/'')"
    by (simp add: sample_bin_type octet_stream_not_image)
  have u: "is_UnicodeDecodeError (Exn UnicodeDecodeError (str ''invalid start byte''))"
    by simp
  note d = t3 [THEN conjunct2, THEN conjunct2, THEN conjunct2, THEN mp, OF n3,
      THEN spec, THEN mp, OF sample_chunker]
  note d5 = d [THEN conjunct2, THEN conjunct2, THEN conjunct2, THEN conjunct2, THEN conjunct1,
      THEN spec, THEN spec, THEN mp, OF conjI [OF sample_bin_text conjI [OF u sample_bin_bytes]],
      THEN conjunct1]
  have c: "snd (ingest_file sample_env (str ''b.bin'') (str ''docs'') None) =
        [\<lparr>collection = str ''docs'',
           documents = [str ''<Binary data of type application/octet-stream, size 2 bytes>''],
           metadatas = [[(''source_file'', PyStr (str ''/d/b.bin'')),
                         (''content_type'', PyStr (str ''application/octet-stream'')),
                         (''is_binary'', PyBool True)]],
           ids = [str ''id0'']\<rparr>]"
    unfolding d5 sample_bin_type
    by (simp add: binary_placeholder_def sample_env_def str_def)
  from sample_has_client sample_has_docs sample_resolve [of "str ''t.txt''"] sample_text_exists
    image_x o sample_text_bytes w r n f b sample_resolve [of "str ''b.bin''"] sample_bin_exists
    n3 sample_bin_text u sample_bin_bytes c
  show ?thesis
    by (intro conjI)
qed

text \<open>
  The claim as it was stated, that the branch among image, text and binary depends on the
  resolved content type only, fails: with the same resolved type \<open>text/plain\<close>, the file
  \<open>t.txt\<close> is stored as a text chunk and the file \<open>b.bin\<close> as a binary placeholder.
\<close>

theorem image_branch_by_type_counterexample:
  "resolve_content_type sample_env (str ''/d/'' @ str ''t.txt'') (Some (str ''text/plain''))
     = resolve_content_type sample_env (str ''/d/'' @ str ''b.bin'') (Some (str ''text/plain''))
   \<and> map metadatas (snd (ingest_file sample_env (str ''t.txt'') (str ''docs'')
                            (Some (str ''text/plain'')))) =
        [[[(''source_file'', PyStr (str ''/d/t.txt'')),
           (''content_type'', PyStr (str ''text/plain'')),
           (''chunk_index'', PyInt 0), (''total_chunks'', PyInt 1)]]]
   \<and> map metadatas (snd (ingest_file sample_env (str ''b.bin'') (str ''docs'')
                            (Some (str ''text/plain'')))) =
        [[[(''source_file'', PyStr (str ''/d/b.bin'')),
           (''content_type'', PyStr (str ''text/plain'')),
           (''is_binary'', PyBool True)]]]"
  by (simp add: ingest_file_def ingest_body_def text_block_def binary_block_def sample_env_def
      sample_client_def sample_files_def resolve_content_type_def startswith_def chunk_spec_def
      sample_boundaries_def summary_def truncated_content_def binary_placeholder_def Let_def
      str_def)

end
